theory Spec2Isabelle
  imports Complex_Main "HOL-Library.AList" "HOL-Library.Sublist" "HOL-Library.Char_ord"
begin

section \<open>Order-execution core of polymarket\_tools\<close>

text \<open>
  A shallow embedding of \<^verbatim>\<open>src/backend/utilities.py\<close>,
  \<^verbatim>\<open>src/backend/order_orchestrator.py\<close> and \<^verbatim>\<open>src/backend/websocket_handlers.py\<close>.

  Conventions of the embedding:
  \<^item> a Python \<^verbatim>\<open>float\<close> is a \<^typ>\<open>real\<close>: arithmetic is exact, there is no rounding
    error, no NaN and no infinity (the one use of \<^verbatim>\<open>float('inf')\<close> is an \<open>option\<close>);
  \<^item> every reading of the clock (\<^verbatim>\<open>time.time()\<close>, \<^verbatim>\<open>datetime.now()\<close>) is an
    argument of the function that reads it;
  \<^item> a dictionary whose order is observable (\<^verbatim>\<open>pending_orders\<close>) is an association
    list with distinct keys, in insertion order;
  \<^item> an exception is the \<open>Inl\<close> side of a sum; \<^verbatim>\<open>print\<close> is dropped;
  \<^item> a call of an external collaborator (the trading client, the callback) is recorded
    in a trace, and what the collaborator answers is an argument.
\<close>

subsection \<open>Data models (utilities.py)\<close>

definition MIN_ORDER_SIZE :: real where
  "MIN_ORDER_SIZE = 5"

record StrategyConfig =
  cfg_token_id :: string
  cfg_limit_price :: real
  cfg_total_quantity :: real
  cfg_child_order_size :: real
  cfg_order_price_min_tick_size :: real
  cfg_side :: string
  cfg_timeout_seconds :: int
  cfg_rate_limit_per_second :: real
  max_pending_orders :: int
  cfg_price_improvement_ticks :: int
  cfg_match_top_of_book :: bool
  inside_liquidity_mode :: bool

record OrderState =
  order_id :: string
  price :: real
  size_o :: real
  status :: string
  created_at :: real
  updated_at :: real
  filled_size :: real

record MarketData =
  asset_id :: string
  top_bid :: real
  top_ask :: real
  bid_size :: real
  ask_size :: real
  timestamp :: real

subsection \<open>RateLimiter\<close>

record RateLimiter =
  max_requests_per_second :: real
  tokens :: real
  last_update :: real

text \<open>\<^verbatim>\<open>RateLimiter.__init__\<close>; \<open>now\<close> is the value of \<^verbatim>\<open>time.time()\<close>.\<close>

definition RateLimiter_init :: "real \<Rightarrow> real \<Rightarrow> RateLimiter" where
  "RateLimiter_init rate now =
     \<lparr>max_requests_per_second = rate, tokens = rate, last_update = now\<rparr>"

text \<open>\<^verbatim>\<open>RateLimiter.acquire\<close>: the answer and the limiter after the call.\<close>

definition acquire :: "RateLimiter \<Rightarrow> real \<Rightarrow> bool \<times> RateLimiter" where
  "acquire rl now =
     (let elapsed = now - last_update rl;
          rl1 = rl\<lparr>tokens := min (max_requests_per_second rl)
                                  (tokens rl + elapsed * max_requests_per_second rl),
                    last_update := now\<rparr>
      in if tokens rl1 \<ge> 1 then (True, rl1\<lparr>tokens := tokens rl1 - 1\<rparr>)
         else (False, rl1))"

text \<open>A sequence of \<^verbatim>\<open>acquire()\<close> calls at the given clock readings: the answers in
  order, and the limiter at the end.\<close>

fun acquire_seq :: "RateLimiter \<Rightarrow> real list \<Rightarrow> bool list \<times> RateLimiter" where
  "acquire_seq rl [] = ([], rl)"
| "acquire_seq rl (t # ts) =
     (let (b, rl1) = acquire rl t; (bs, rl2) = acquire_seq rl1 ts in (b # bs, rl2))"

subsection \<open>PositionTracker\<close>

record fill_record =
  fill_size :: real
  fill_price :: real
  fill_timestamp :: real

record PositionTracker =
  token_id :: string
  target_quantity :: real
  filled_quantity :: real
  pending_orders :: "(string \<times> OrderState) list"
  fill_history :: "fill_record list"
  total_fill_value :: real

definition PositionTracker_init :: "string \<Rightarrow> real \<Rightarrow> PositionTracker" where
  "PositionTracker_init tok target =
     \<lparr>token_id = tok, target_quantity = target, filled_quantity = 0,
      pending_orders = [], fill_history = [], total_fill_value = 0\<rparr>"

definition get_remaining_quantity :: "PositionTracker \<Rightarrow> real" where
  "get_remaining_quantity t = max 0 (target_quantity t - filled_quantity t)"



definition add_pending_order ::
  "PositionTracker \<Rightarrow> string \<Rightarrow> real \<Rightarrow> real \<Rightarrow> real \<Rightarrow> PositionTracker" where
  "add_pending_order t oid p sz now =
     t\<lparr>pending_orders := AList.update oid
          \<lparr>order_id = oid, price = p, size_o = sz, status = ''LIVE'',
           created_at = now, updated_at = now, filled_size = 0\<rparr> (pending_orders t)\<rparr>"

definition remove_pending_order :: "PositionTracker \<Rightarrow> string \<Rightarrow> PositionTracker" where
  "remove_pending_order t oid =
     (if oid \<in> fst ` set (pending_orders t)
      then t\<lparr>pending_orders := AList.delete oid (pending_orders t)\<rparr> else t)"

definition get_pending_orders :: "PositionTracker \<Rightarrow> OrderState list" where
  "get_pending_orders t = map snd (pending_orders t)"

definition is_target_reached :: "PositionTracker \<Rightarrow> bool" where
  "is_target_reached t \<longleftrightarrow> filled_quantity t \<ge> target_quantity t"

subsection \<open>TopOfBookStrategy (order\_orchestrator.py)\<close>

text \<open>The side constants of the trading client library.\<close>

definition BUY :: string where
  "BUY = ''BUY''"

definition SELL :: string where
  "SELL = ''SELL''"

text \<open>The message of a critical error, one constructor for each f-string of the source:
  \<^verbatim>\<open>"Failed to place orders {n} consecutive times"\<close>,
  \<^verbatim>\<open>"Fatal error - insufficient balance/allowance: {e}"\<close> and
  \<^verbatim>\<open>"Order placement errors: Error placing order: {e}"\<close>.\<close>

datatype error_message =
  NoMessage
  | FailedConsecutive int
  | FatalBalance string
  | PlacementErrors string

record TopOfBookStrategy =
  position_tracker :: PositionTracker
  child_order_size :: real
  limit_price :: real
  side :: string
  order_price_min_tick_size :: real
  price_improvement_ticks :: int
  match_top_of_book :: bool
  critical_error :: bool
  critical_error_message :: error_message
  consecutive_order_failures :: int
  max_consecutive_failures :: int
  critical_error_occurred :: bool
  current_market_data :: "MarketData option"

definition TopOfBookStrategy_init ::
  "PositionTracker \<Rightarrow> real \<Rightarrow> real \<Rightarrow> real \<Rightarrow> string \<Rightarrow> int \<Rightarrow> bool \<Rightarrow> TopOfBookStrategy" where
  "TopOfBookStrategy_init tracker child lmt tick sd ticks match =
     \<lparr>position_tracker = tracker, child_order_size = child, limit_price = lmt, side = sd,
      order_price_min_tick_size = tick, price_improvement_ticks = ticks,
      match_top_of_book = match, critical_error = False, critical_error_message = NoMessage,
      consecutive_order_failures = 0, max_consecutive_failures = 3,
      critical_error_occurred = False, current_market_data = None\<rparr>"

text \<open>The strategy that \<^verbatim>\<open>OrderManager.__init__\<close> builds from a configuration when
  \<^verbatim>\<open>inside_liquidity_mode\<close> is off (the other strategy class is not modelled).\<close>

definition OrderManager_strategy :: "StrategyConfig \<Rightarrow> TopOfBookStrategy option" where
  "OrderManager_strategy config =
     (if inside_liquidity_mode config then None
      else Some (TopOfBookStrategy_init
             (PositionTracker_init (cfg_token_id config) (cfg_total_quantity config))
             (cfg_child_order_size config) (cfg_limit_price config)
             (cfg_order_price_min_tick_size config) (cfg_side config)
             (cfg_price_improvement_ticks config) (cfg_match_top_of_book config)))"

text \<open>Python's \<^verbatim>\<open>round(x, ndigits)\<close> on exact numbers: to the nearest multiple of
  \<open>10 ^ -ndigits\<close>, a tie going to the even one.\<close>

definition py_round :: "real \<Rightarrow> nat \<Rightarrow> real" where
  "py_round x ndigits =
     (let y = x * 10 ^ ndigits; f = \<lfloor>y\<rfloor>; d = y - of_int f
      in (if d < 1 / 2 then of_int f
          else if d > 1 / 2 then of_int (f + 1)
          else if even f then of_int f else of_int (f + 1)) / 10 ^ ndigits)"

text \<open>\<^verbatim>\<open>max([order.price for order in pending_orders], default=0.0)\<close>\<close>

definition our_best_buy :: "OrderState list \<Rightarrow> real" where
  "our_best_buy pending = (case map price pending of [] \<Rightarrow> 0 | p # ps \<Rightarrow> fold max ps p)"

text \<open>\<^verbatim>\<open>min([order.price for order in pending_orders], default=float('inf'))\<close>, with
  \<open>None\<close> for the infinite default.\<close>

definition our_best_sell :: "OrderState list \<Rightarrow> real option" where
  "our_best_sell pending =
     (case map price pending of [] \<Rightarrow> None | p # ps \<Rightarrow> Some (fold min ps p))"

text \<open>\<^verbatim>\<open>_calculate_target_price\<close>. On the SELL branch with no pending order the source
  compares \<^verbatim>\<open>abs(current_top_price - inf)\<close>, which is infinite, with the tick size: the
  test fails and the price is computed afresh.\<close>

definition calculate_target_price :: "TopOfBookStrategy \<Rightarrow> real \<Rightarrow> real" where
  "calculate_target_price s current_top_price =
     (let pending = get_pending_orders (position_tracker s);
          tick = order_price_min_tick_size s;
          decimal_places = (if tick = 1 / 1000 then 3 else 2)
      in if side s = BUY then
           (let our_best_price = our_best_buy pending
            in if \<bar>current_top_price - our_best_price\<bar> \<le> tick then our_best_price
               else
                 (let target_price =
                        (if match_top_of_book s then current_top_price
                         else current_top_price + of_int (price_improvement_ticks s) * tick);
                      target_price = min target_price (limit_price s)
                  in py_round target_price decimal_places))
         else
           (let target_price =
                  (if match_top_of_book s then current_top_price
                   else current_top_price - of_int (price_improvement_ticks s) * tick);
                target_price = max target_price (limit_price s);
                fresh = py_round target_price decimal_places
            in case our_best_sell pending of
                 None \<Rightarrow> fresh
               | Some our_best_price \<Rightarrow>
                   if \<bar>current_top_price - our_best_price\<bar> \<le> tick then our_best_price
                   else fresh))"

text \<open>The test of the loops of \<^verbatim>\<open>_should_adjust_orders\<close> and \<^verbatim>\<open>_adjust_orders\<close>:
  \<^verbatim>\<open>abs(order.price - target_price) > self.order_price_min_tick_size\<close>.\<close>

definition off_target :: "TopOfBookStrategy \<Rightarrow> real \<Rightarrow> OrderState \<Rightarrow> bool" where
  "off_target s target_price od \<longleftrightarrow> \<bar>price od - target_price\<bar> > order_price_min_tick_size s"

definition should_adjust_orders :: "TopOfBookStrategy \<Rightarrow> MarketData \<Rightarrow> bool" where
  "should_adjust_orders s market_data =
     (if is_target_reached (position_tracker s) then False
      else
        (let pending = get_pending_orders (position_tracker s)
         in if pending = [] then True
            else
              (let current_top_price =
                     (if side s = BUY then top_bid market_data else top_ask market_data);
                   target_price = calculate_target_price s current_top_price
               in list_ex (off_target s target_price) pending)))"

definition should_place_order :: "TopOfBookStrategy \<Rightarrow> real \<Rightarrow> bool" where
  "should_place_order s p =
     (if side s = BUY \<and> p > limit_price s then False
      else if side s = SELL \<and> p < limit_price s then False
      else if length (get_pending_orders (position_tracker s)) \<ge> 3 then False
      else True)"

definition get_optimal_order_size :: "TopOfBookStrategy \<Rightarrow> real \<Rightarrow> real" where
  "get_optimal_order_size s remaining_quantity =
     (if remaining_quantity < MIN_ORDER_SIZE then 0
      else if remaining_quantity \<le> child_order_size s then remaining_quantity
      else
        (let remainder_after_child_order = remaining_quantity - child_order_size s
         in if 0 < remainder_after_child_order \<and> remainder_after_child_order < MIN_ORDER_SIZE
            then remaining_quantity
            else child_order_size s))"

text \<open>What the strategy asks of the order executor: \<^verbatim>\<open>cancel_order(order_id)\<close> and
  \<^verbatim>\<open>place_order(token_id, price, size, side)\<close>.\<close>

datatype action =
  CancelCall string
  | PlaceCall string real real string

text \<open>What \<^verbatim>\<open>OrderExecutor.place_order\<close> answers: an order id, \<^verbatim>\<open>None\<close>, or an
  exception with its message.\<close>

datatype place_outcome =
  PlaceReturns "string option"
  | PlaceRaises string

definition lower :: "string \<Rightarrow> string" where
  "lower str = map (\<lambda>c. if CHR ''A'' \<le> c \<and> c \<le> CHR ''Z''
                          then char_of (of_char c + (32 :: nat)) else c) str"

text \<open>\<^verbatim>\<open>_place_new_order(price, size)\<close>: the strategy after the call, the calls made to
  the executor, and the exception that leaves the function, if any.\<close>

definition place_new_order ::
  "TopOfBookStrategy \<Rightarrow> real \<Rightarrow> real \<Rightarrow> place_outcome \<Rightarrow> real
     \<Rightarrow> TopOfBookStrategy \<times> action list \<times> string option" where
  "place_new_order s p sz outcome now =
     (if \<not> should_place_order s p then (s, [], None)
      else
        (let call = PlaceCall (token_id (position_tracker s)) p sz (side s);
             failed = s\<lparr>consecutive_order_failures := consecutive_order_failures s + 1\<rparr>
         in case outcome of
              PlaceReturns r \<Rightarrow>
                (case (if r = Some [] then None else r) of
                   Some oid \<Rightarrow>
                     (s\<lparr>position_tracker := add_pending_order (position_tracker s) oid p sz now,
                        consecutive_order_failures := 0\<rparr>, [call], None)
                 | None \<Rightarrow>
                     (if consecutive_order_failures failed \<ge> max_consecutive_failures failed
                      then failed\<lparr>critical_error_occurred := True,
                                  critical_error_message :=
                                    FailedConsecutive (consecutive_order_failures failed)\<rparr>
                      else failed, [call], None))
            | PlaceRaises e \<Rightarrow>
                (if sublist ''not enough balance'' (lower e) \<or> sublist ''allowance'' (lower e)
                    \<or> sublist ''insufficient balance'' (lower e)
                 then (failed\<lparr>critical_error_occurred := True,
                               critical_error_message := FatalBalance e\<rparr>, [call], Some e)
                 else
                   (if consecutive_order_failures failed \<ge> max_consecutive_failures failed
                    then failed\<lparr>critical_error_occurred := True,
                                critical_error_message := PlacementErrors e\<rparr>
                    else failed, [call], None))))"

text \<open>The cancel loop of \<^verbatim>\<open>_adjust_orders\<close> over the list of pending orders read at its
  start. \<open>cancel_env\<close> is what \<^verbatim>\<open>cancel_order\<close> answers for an order id: a boolean, which
  the loop ignores, or an exception, which ends \<^verbatim>\<open>_adjust_orders\<close>.\<close>

fun cancel_stale ::
  "TopOfBookStrategy \<Rightarrow> real \<Rightarrow> (string \<Rightarrow> string + bool) \<Rightarrow> PositionTracker \<Rightarrow> OrderState list
     \<Rightarrow> PositionTracker \<times> action list \<times> string option" where
  "cancel_stale s target_price cancel_env t [] = (t, [], None)"
| "cancel_stale s target_price cancel_env t (od # orders) =
     (if off_target s target_price od then
        (case cancel_env (order_id od) of
           Inl e \<Rightarrow> (t, [CancelCall (order_id od)], Some e)
         | Inr _ \<Rightarrow>
             (let (t', calls, exn) =
                    cancel_stale s target_price cancel_env
                      (remove_pending_order t (order_id od)) orders
              in (t', CancelCall (order_id od) # calls, exn)))
      else cancel_stale s target_price cancel_env t orders)"

definition adjust_orders ::
  "TopOfBookStrategy \<Rightarrow> MarketData \<Rightarrow> (string \<Rightarrow> string + bool) \<Rightarrow> place_outcome \<Rightarrow> real
     \<Rightarrow> TopOfBookStrategy \<times> action list \<times> string option" where
  "adjust_orders s market_data cancel_env outcome now =
     (let pending = get_pending_orders (position_tracker s);
          current_top_price =
            (if side s = BUY then top_bid market_data else top_ask market_data);
          target_price = calculate_target_price s current_top_price;
          (t', calls, exn) = cancel_stale s target_price cancel_env (position_tracker s) pending;
          s1 = s\<lparr>position_tracker := t'\<rparr>
      in case exn of
           Some e \<Rightarrow> (s1, calls, Some e)
         | None \<Rightarrow>
             (let remaining_qty = get_remaining_quantity (position_tracker s1)
              in if remaining_qty > 0 \<and> should_place_order s1 target_price then
                   (let order_size = get_optimal_order_size s1 remaining_qty
                    in if order_size > 0 then
                         (let (s2, calls2, exn2) =
                                place_new_order s1 target_price order_size outcome now
                          in (s2, calls @ calls2, exn2))
                       else (s1, calls, None))
                 else (s1, calls, None)))"

definition process_market_update ::
  "TopOfBookStrategy \<Rightarrow> MarketData \<Rightarrow> (string \<Rightarrow> string + bool) \<Rightarrow> place_outcome \<Rightarrow> real
     \<Rightarrow> TopOfBookStrategy \<times> action list \<times> string option" where
  "process_market_update s market_data cancel_env outcome now =
     (let s1 = s\<lparr>current_market_data := Some market_data\<rparr>
      in if should_adjust_orders s1 market_data
         then adjust_orders s1 market_data cancel_env outcome now
         else (s1, [], None))"

subsection \<open>Example inputs\<close>

text \<open>The scenario of the specification: buy 20 in child orders of 10, tick 0.01, limit
  0.55.\<close>

abbreviation example_strategy :: TopOfBookStrategy where
  "example_strategy \<equiv>
     TopOfBookStrategy_init (PositionTracker_init ''tok'' 20) 10 (55 / 100) (1 / 100) BUY 1 False"

abbreviation example_quoting :: TopOfBookStrategy where
  "example_quoting \<equiv> example_strategy
     \<lparr>position_tracker := add_pending_order (PositionTracker_init ''tok'' 20) ''o1'' (51 / 100) 10 0\<rparr>"


abbreviation example_idle_market :: MarketData where
  "example_idle_market \<equiv> \<lparr>asset_id = ''tok'', top_bid = 50 / 100, top_ask = 60 / 100,
     bid_size = 10, ask_size = 10, timestamp = 1\<rparr>"

abbreviation example_full :: TopOfBookStrategy where
  "example_full \<equiv> example_strategy
     \<lparr>position_tracker :=
        add_pending_order (add_pending_order (add_pending_order
          (PositionTracker_init ''tok'' 20) ''o1'' (51 / 100) 5 0) ''o2'' (51 / 100) 5 0)
          ''o3'' (51 / 100) 5 0\<rparr>"

abbreviation example_config :: StrategyConfig where
  "example_config \<equiv> \<lparr>cfg_token_id = ''tok'', cfg_limit_price = 55 / 100,
     cfg_total_quantity = 20, cfg_child_order_size = 10,
     cfg_order_price_min_tick_size = 1 / 100, cfg_side = BUY, cfg_timeout_seconds = 3600,
     cfg_rate_limit_per_second = 5, max_pending_orders = 3,
     cfg_price_improvement_ticks = 1, cfg_match_top_of_book = False,
     inside_liquidity_mode = False\<rparr>"

subsection \<open>OrderExecutor.cancel\_order (order\_orchestrator.py)\<close>

text \<open>What \<^verbatim>\<open>client.cancel_orders([order_id])\<close> returns, as far as \<^verbatim>\<open>cancel_order\<close>
  tells answers apart: a falsy value (\<^verbatim>\<open>None\<close>, an empty dict or list); a non-empty
  dict with its \<^verbatim>\<open>'canceled'\<close> list and its \<^verbatim>\<open>'not_canceled'\<close> dict, each empty when the
  key is missing; a non-empty list; any other truthy value.\<close>

datatype cancel_response =
  RespFalsy
  | RespDict "string list" "(string \<times> string) list"
  | RespList
  | RespOther

datatype client_outcome =
  ClientReturns cancel_response
  | ClientRaises string

text \<open>What \<^verbatim>\<open>cancel_order\<close> does that can be seen from outside: a call of
  \<^verbatim>\<open>rate_limiter.acquire()\<close> with its answer, \<^verbatim>\<open>asyncio.sleep(seconds)\<close>, and a call of
  \<^verbatim>\<open>client.cancel_orders(ids)\<close> with what the client answered.\<close>

datatype executor_event =
  Acquire bool
  | Sleep real
  | ClientCancel "string list" client_outcome

text \<open>The exceptions \<^verbatim>\<open>cancel_order\<close> raises, with the order id and \<^verbatim>\<open>max_retries\<close> of
  their messages: \<^verbatim>\<open>"... after {max_retries} attempts due to rate limiting"\<close>, and
  \<^verbatim>\<open>"... after {max_retries} attempts: {e}"\<close>, where \<open>e\<close> is the client's exception
  (\<open>Some\<close>) or the exception of line 157, raised and caught inside the \<^verbatim>\<open>try\<close>
  (\<open>None\<close>).\<close>

datatype cancel_exception =
  RateLimitExhausted string int
  | AttemptsExhausted string int "string option"

text \<open>The tests on the response inside the \<^verbatim>\<open>try\<close> block that end in
  \<^verbatim>\<open>return True\<close>.\<close>

definition cancel_succeeded :: "string \<Rightarrow> cancel_response \<Rightarrow> bool" where
  "cancel_succeeded oid resp =
     (case resp of
        RespFalsy \<Rightarrow> False
      | RespDict canceled_orders not_canceled \<Rightarrow>
          (if oid \<in> set canceled_orders then True
           else (case map_of not_canceled oid of
                   Some error_reason \<Rightarrow> error_reason = ''order already canceled''
                 | None \<Rightarrow> False))
      | RespList \<Rightarrow> True
      | RespOther \<Rightarrow> False)"

text \<open>The body of the \<^verbatim>\<open>for attempt in range(max_retries)\<close> loop, given the answer of
  the rate limiter and, when a token was granted, of the client: what the function
  returns or raises in this iteration (\<open>None\<close> when the loop goes on) and the events of
  the iteration.\<close>

definition cancel_attempt ::
  "string \<Rightarrow> int \<Rightarrow> nat \<Rightarrow> bool \<Rightarrow> client_outcome
     \<Rightarrow> (cancel_exception + bool) option \<times> executor_event list" where
  "cancel_attempt oid max_retries attempt granted outcome =
     (let last_attempt = (int attempt = max_retries - 1)
      in if \<not> granted then
           (if last_attempt then (Some (Inl (RateLimitExhausted oid max_retries)), [Acquire False])
            else (None, [Acquire False, Sleep 1]))
         else
           (case outcome of
              ClientReturns resp \<Rightarrow>
                (if cancel_succeeded oid resp
                 then (Some (Inr True), [Acquire True, ClientCancel [oid] outcome])
                 else if last_attempt
                 then (Some (Inl (AttemptsExhausted oid max_retries None)),
                       [Acquire True, ClientCancel [oid] outcome])
                 else (None, [Acquire True, ClientCancel [oid] outcome]))
            | ClientRaises e \<Rightarrow>
                (if last_attempt
                 then (Some (Inl (AttemptsExhausted oid max_retries (Some e))),
                       [Acquire True, ClientCancel [oid] outcome])
                 else (None, [Acquire True, ClientCancel [oid] outcome, Sleep 1]))))"

text \<open>The loop, with \<open>n\<close> iterations left. \<open>clock k\<close> is \<^verbatim>\<open>time.time()\<close> inside the
  \<^verbatim>\<open>acquire()\<close> of attempt \<open>k\<close>, \<open>client k\<close> what the client answers at attempt \<open>k\<close>. When
  the iterations are used up the function returns \<^verbatim>\<open>False\<close>.\<close>

fun cancel_attempts ::
  "string \<Rightarrow> int \<Rightarrow> (nat \<Rightarrow> real) \<Rightarrow> (nat \<Rightarrow> client_outcome) \<Rightarrow> nat \<Rightarrow> nat \<Rightarrow> RateLimiter
     \<Rightarrow> (cancel_exception + bool) \<times> executor_event list \<times> RateLimiter" where
  "cancel_attempts oid max_retries clock client 0 attempt rl = (Inr False, [], rl)"
| "cancel_attempts oid max_retries clock client (Suc n) attempt rl =
     (let (granted, rl1) = acquire rl (clock attempt);
          (r, events) = cancel_attempt oid max_retries attempt granted (client attempt)
      in case r of
           Some res \<Rightarrow> (res, events, rl1)
         | None \<Rightarrow>
             (let (res, events', rl2) =
                    cancel_attempts oid max_retries clock client n (Suc attempt) rl1
              in (res, events @ events', rl2)))"

definition cancel_order ::
  "string \<Rightarrow> int \<Rightarrow> (nat \<Rightarrow> real) \<Rightarrow> (nat \<Rightarrow> client_outcome) \<Rightarrow> RateLimiter
     \<Rightarrow> (cancel_exception + bool) \<times> executor_event list \<times> RateLimiter" where
  "cancel_order oid max_retries clock client rl =
     cancel_attempts oid max_retries clock client (nat max_retries) 0 rl"

text \<open>The number of attempts in a trace: each attempt starts with one
  \<^verbatim>\<open>acquire()\<close>.\<close>

definition is_acquire :: "executor_event \<Rightarrow> bool" where
  "is_acquire e = (case e of Acquire _ \<Rightarrow> True | _ \<Rightarrow> False)"

definition attempts_made :: "executor_event list \<Rightarrow> nat" where
  "attempts_made events = length (filter is_acquire events)"

subsection \<open>StopConditionManager (utilities.py)\<close>

text \<open>A \<^verbatim>\<open>datetime\<close> is its number of microseconds, the resolution of the type, so
  \<^verbatim>\<open>timedelta(seconds=n)\<close> is \<open>n * 1000000\<close>. The callback is known by its name, and
  \<^verbatim>\<open>asyncio.create_task(self.stop_callback(reason))\<close> is recorded as the pair of that
  name and the reason.\<close>

record StopConditionManager =
  timeout_seconds :: int
  start_time :: int
  stop_requested :: bool
  large_order_threshold :: real
  stop_callback :: "string option"

definition StopConditionManager_init :: "int \<Rightarrow> int \<Rightarrow> StopConditionManager" where
  "StopConditionManager_init timeout now =
     \<lparr>timeout_seconds = timeout, start_time = now, stop_requested = False,
      large_order_threshold = 1000, stop_callback = None\<rparr>"

definition set_stop_callback :: "StopConditionManager \<Rightarrow> string \<Rightarrow> StopConditionManager" where
  "set_stop_callback m callback = m\<lparr>stop_callback := Some callback\<rparr>"

definition request_stop ::
  "StopConditionManager \<Rightarrow> StopConditionManager \<times> (string \<times> string) list" where
  "request_stop m =
     (m\<lparr>stop_requested := True\<rparr>,
      case stop_callback m of Some cb \<Rightarrow> [(cb, ''manual_stop'')] | None \<Rightarrow> [])"

definition check_timeout :: "StopConditionManager \<Rightarrow> int \<Rightarrow> bool \<times> (string \<times> string) list" where
  "check_timeout m now =
     (let elapsed = now - start_time m
      in if elapsed > timeout_seconds m * 1000000
         then (True, case stop_callback m of Some cb \<Rightarrow> [(cb, ''timeout'')] | None \<Rightarrow> [])
         else (False, []))"

definition should_stop :: "StopConditionManager \<Rightarrow> int \<Rightarrow> bool \<times> (string \<times> string) list" where
  "should_stop m now =
     (if stop_requested m then (True, [])
      else
        (let (timed_out, invoked) = check_timeout m now
         in if timed_out then (True, invoked) else (False, invoked)))"

text \<open>A sequence of calls on one manager, each poll with the clock it reads, and all the
  callback invocations it causes, in order.\<close>

datatype manager_call =
  RequestStop
  | CheckTimeout int
  | ShouldStop int

fun run_calls :: "StopConditionManager \<Rightarrow> manager_call list \<Rightarrow> (string \<times> string) list" where
  "run_calls m [] = []"
| "run_calls m (RequestStop # calls) =
     (let (m', invoked) = request_stop m in invoked @ run_calls m' calls)"
| "run_calls m (CheckTimeout now # calls) = snd (check_timeout m now) @ run_calls m calls"
| "run_calls m (ShouldStop now # calls) = snd (should_stop m now) @ run_calls m calls"

abbreviation example_manager :: StopConditionManager where
  "example_manager \<equiv> set_stop_callback (StopConditionManager_init 10 0) ''_handle_stop_condition''"

subsection \<open>MarketDataStream: the order book (websocket\_handlers.py)\<close>

text \<open>A scalar of a decoded JSON message: missing or \<^verbatim>\<open>null\<close>, a string, a number.
  Equality of the datatype is Python's \<^verbatim>\<open>==\<close> on these values.\<close>

datatype json =
  JNone
  | JStr string
  | JNum real

definition truthy :: "json \<Rightarrow> bool" where
  "truthy v = (case v of JNone \<Rightarrow> False | JStr s \<Rightarrow> s \<noteq> [] | JNum x \<Rightarrow> x \<noteq> 0)"

datatype py_error =
  ValueError
  | TypeError

text \<open>Python's \<^verbatim>\<open>float(v)\<close>. The conversion of a string is the argument \<open>pf\<close>, which
  is \<open>None\<close> where \<^verbatim>\<open>float\<close> raises \<^verbatim>\<open>ValueError\<close>.\<close>

definition to_float :: "(string \<Rightarrow> real option) \<Rightarrow> json \<Rightarrow> py_error + real" where
  "to_float pf v =
     (case v of
        JNone \<Rightarrow> Inl TypeError
      | JStr s \<Rightarrow> (case pf s of None \<Rightarrow> Inl ValueError | Some x \<Rightarrow> Inr x)
      | JNum x \<Rightarrow> Inr x)"

record level =
  level_price :: json
  level_size :: json

text \<open>A \<^verbatim>\<open>book\<close> message, which is also the stored book. A side is \<open>None\<close> when the
  message has no such key.\<close>

record order_book =
  book_asset_id :: "string option"
  bids :: "level list option"
  asks :: "level list option"

record change =
  change_price :: json
  change_side :: json
  change_size :: json

record price_change =
  pc_asset_id :: "string option"
  changes :: "change list"

type_synonym order_books = "string \<Rightarrow> order_book option"

text \<open>\<^verbatim>\<open>book.get('bids', [])\<close>\<close>

definition side_levels :: "level list option \<Rightarrow> level list" where
  "side_levels side_opt = (case side_opt of None \<Rightarrow> [] | Some levels \<Rightarrow> levels)"

text \<open>The construction of the \<^verbatim>\<open>MarketData\<close> event from the last level of each side;
  the four conversions are made in the order of the source and the first that fails
  raises.\<close>

definition make_market_data ::
  "(string \<Rightarrow> real option) \<Rightarrow> string \<Rightarrow> level list \<Rightarrow> level list \<Rightarrow> real
     \<Rightarrow> py_error + MarketData" where
  "make_market_data pf aid bid_levels ask_levels now =
     (case to_float pf (level_price (last bid_levels)) of
        Inl e \<Rightarrow> Inl e
      | Inr tb \<Rightarrow>
     (case to_float pf (level_price (last ask_levels)) of
        Inl e \<Rightarrow> Inl e
      | Inr ta \<Rightarrow>
     (case to_float pf (level_size (last bid_levels)) of
        Inl e \<Rightarrow> Inl e
      | Inr bs \<Rightarrow>
     (case to_float pf (level_size (last ask_levels)) of
        Inl e \<Rightarrow> Inl e
      | Inr as \<Rightarrow>
          Inr \<lparr>asset_id = aid, top_bid = tb, top_ask = ta, bid_size = bs, ask_size = as,
               timestamp = now\<rparr>))))"

text \<open>The end of both handlers: an event if both sides of the book are non-empty.
  The result is the exception raised, or the event passed to the callback, if any.\<close>

definition emit_top_of_book ::
  "(string \<Rightarrow> real option) \<Rightarrow> string \<Rightarrow> order_book \<Rightarrow> real \<Rightarrow> py_error + MarketData option" where
  "emit_top_of_book pf aid book now =
     (let bid_levels = side_levels (bids book); ask_levels = side_levels (asks book)
      in if bid_levels \<noteq> [] \<and> ask_levels \<noteq> []
         then (case make_market_data pf aid bid_levels ask_levels now of
                 Inl e \<Rightarrow> Inl e
               | Inr market_data \<Rightarrow> Inr (Some market_data))
         else Inr None)"

definition handle_book_update ::
  "(string \<Rightarrow> real option) \<Rightarrow> order_books \<Rightarrow> order_book \<Rightarrow> real
     \<Rightarrow> order_books \<times> (py_error + MarketData option)" where
  "handle_book_update pf books message now =
     (case book_asset_id message of
        None \<Rightarrow> (books, Inr None)
      | Some aid \<Rightarrow>
          if aid = [] then (books, Inr None)
          else (books(aid \<mapsto> message), emit_top_of_book pf aid message now))"

text \<open>The index of the first level with the given price: the \<^verbatim>\<open>for ... break\<close> loop,
  \<open>None\<close> when the loop reaches its \<^verbatim>\<open>else\<close>.\<close>

fun find_level :: "json \<Rightarrow> level list \<Rightarrow> nat option" where
  "find_level p [] = None"
| "find_level p (l # ls) =
     (if level_price l = p then Some 0 else map_option Suc (find_level p ls))"

text \<open>The keys \<^verbatim>\<open>float(x['price'])\<close> of a sort; the first conversion that fails
  raises.\<close>

fun price_keys :: "(string \<Rightarrow> real option) \<Rightarrow> level list \<Rightarrow> py_error + (real \<times> level) list" where
  "price_keys pf [] = Inr []"
| "price_keys pf (l # ls) =
     (case to_float pf (level_price l) of
        Inl e \<Rightarrow> Inl e
      | Inr k \<Rightarrow> (case price_keys pf ls of Inl e \<Rightarrow> Inl e | Inr ks \<Rightarrow> Inr ((k, l) # ks)))"

text \<open>\<^verbatim>\<open>list.sort(key=..., reverse=...)\<close>: stable, and stable too when reversed.\<close>

definition sort_levels ::
  "(string \<Rightarrow> real option) \<Rightarrow> bool \<Rightarrow> level list \<Rightarrow> py_error + level list" where
  "sort_levels pf reversed levels =
     (case price_keys pf levels of
        Inl e \<Rightarrow> Inl e
      | Inr ks \<Rightarrow>
          Inr (map snd (if reversed then rev (sort_key fst (rev ks)) else sort_key fst ks)))"

text \<open>One iteration of the loop over \<^verbatim>\<open>changes\<close>: the book after it and the exception
  that ends the handler, if any. A sort whose key raises leaves the list as it was, with
  the new level at its end.\<close>

definition apply_change ::
  "(string \<Rightarrow> real option) \<Rightarrow> order_book \<Rightarrow> change \<Rightarrow> order_book \<times> py_error option" where
  "apply_change pf book ch =
     (let p = change_price ch; sd = change_side ch; sz = change_size ch
      in if \<not> (truthy p \<and> truthy sd \<and> truthy sz) then (book, None)
         else
           (let on_bids = (sd = JStr ''BUY'');
                store = (\<lambda>levels. if on_bids then book\<lparr>bids := Some levels\<rparr>
                                   else book\<lparr>asks := Some levels\<rparr>)
            in case (if on_bids then bids book else asks book) of
                 None \<Rightarrow> (book, None)
               | Some levels \<Rightarrow>
                   (case find_level p levels of
                      Some i \<Rightarrow>
                        (case to_float pf sz of
                           Inl e \<Rightarrow> (book, Some e)
                         | Inr x \<Rightarrow>
                             if x = 0 then (store (take i levels @ drop (Suc i) levels), None)
                             else (store (levels[i := (levels ! i)\<lparr>level_size := sz\<rparr>]), None))
                    | None \<Rightarrow>
                        (case to_float pf sz of
                           Inl e \<Rightarrow> (book, Some e)
                         | Inr x \<Rightarrow>
                             if x > 0 then
                               (let appended = levels @ [\<lparr>level_price = p, level_size = sz\<rparr>]
                                in case sort_levels pf (\<not> on_bids) appended of
                                     Inl e \<Rightarrow> (store appended, Some e)
                                   | Inr sorted_levels \<Rightarrow> (store sorted_levels, None))
                             else (book, None)))))"

fun apply_changes ::
  "(string \<Rightarrow> real option) \<Rightarrow> order_book \<Rightarrow> change list \<Rightarrow> order_book \<times> py_error option" where
  "apply_changes pf book [] = (book, None)"
| "apply_changes pf book (ch # chs) =
     (case apply_change pf book ch of
        (book', Some e) \<Rightarrow> (book', Some e)
      | (book', None) \<Rightarrow> apply_changes pf book' chs)"

text \<open>\<^verbatim>\<open>_handle_price_change\<close>. The book is changed in place, so an exception leaves
  the changes made before it.\<close>

definition handle_price_change ::
  "(string \<Rightarrow> real option) \<Rightarrow> order_books \<Rightarrow> price_change \<Rightarrow> real
     \<Rightarrow> order_books \<times> (py_error + MarketData option)" where
  "handle_price_change pf books message now =
     (case pc_asset_id message of
        None \<Rightarrow> (books, Inr None)
      | Some aid \<Rightarrow>
          if aid = [] then (books, Inr None)
          else
            (case books aid of
               None \<Rightarrow> (books, Inr None)
             | Some book \<Rightarrow>
                 (case apply_changes pf book (changes message) of
                    (book', Some e) \<Rightarrow> (books(aid \<mapsto> book'), Inl e)
                  | (book', None) \<Rightarrow>
                      (books(aid \<mapsto> book'), emit_top_of_book pf aid book' now))))"

text \<open>The two kinds of message \<^verbatim>\<open>_on_message\<close> dispatches, and a run of the maintainer
  over a feed: after each message, the stored books and what the handler produced.\<close>

datatype feed_message =
  BookMessage order_book
  | PriceChangeMessage price_change

definition handle_message ::
  "(string \<Rightarrow> real option) \<Rightarrow> order_books \<Rightarrow> feed_message \<Rightarrow> real
     \<Rightarrow> order_books \<times> (py_error + MarketData option)" where
  "handle_message pf books message now =
     (case message of
        BookMessage m \<Rightarrow> handle_book_update pf books m now
      | PriceChangeMessage m \<Rightarrow> handle_price_change pf books m now)"

fun run_feed ::
  "(string \<Rightarrow> real option) \<Rightarrow> order_books \<Rightarrow> (feed_message \<times> real) list
     \<Rightarrow> (order_books \<times> (py_error + MarketData option)) list" where
  "run_feed pf books [] = []"
| "run_feed pf books ((message, now) # rest) =
     (let (books', out) = handle_message pf books message now
      in (books', out) # run_feed pf books' rest)"

text \<open>The stored book of an instrument has at least one level on each side.\<close>

definition two_sided :: "order_books \<Rightarrow> string \<Rightarrow> bool" where
  "two_sided books aid =
     (case books aid of
        None \<Rightarrow> False
      | Some book \<Rightarrow> side_levels (bids book) \<noteq> [] \<and> side_levels (asks book) \<noteq> [])"

text \<open>A feed for one instrument, with the conversion of the strings it uses.\<close>

definition example_float :: "string \<Rightarrow> real option" where
  "example_float = (\<lambda>s. if s = ''0'' then Some 0
     else if s = ''10'' then Some 10
     else if s = ''0.47'' then Some (47 / 100)
     else if s = ''0.48'' then Some (48 / 100)
     else if s = ''0.52'' then Some (52 / 100) else None)"

definition example_book :: order_book where
  "example_book = \<lparr>book_asset_id = Some ''tok'',
     bids = Some [\<lparr>level_price = JStr ''0.48'', level_size = JStr ''10''\<rparr>],
     asks = Some [\<lparr>level_price = JStr ''0.52'', level_size = JStr ''10''\<rparr>]\<rparr>"

definition example_zero_bid :: price_change where
  "example_zero_bid = \<lparr>pc_asset_id = Some ''tok'',
     changes = [\<lparr>change_price = JStr ''0.48'', change_side = JStr ''BUY'',
                 change_size = JStr ''0''\<rparr>]\<rparr>"

definition example_new_bid :: price_change where
  "example_new_bid = \<lparr>pc_asset_id = Some ''tok'',
     changes = [\<lparr>change_price = JStr ''0.47'', change_side = JStr ''BUY'',
                 change_size = JStr ''10''\<rparr>]\<rparr>"

section \<open>Properties\<close>

subsection \<open>PositionTracker: fills\<close>










subsection \<open>Top-of-Book Maker: order size\<close>

text \<open>
  C4. With the minimum order size 5, \<^verbatim>\<open>_get_optimal_order_size\<close> on a remaining quantity
  \<open>r\<close> and child order size \<open>c\<close> returns, the cases read in this order: 0 if \<open>r\<close> is below the
  minimum; \<open>r\<close> if \<open>r \<le> c\<close>; \<open>r\<close> if \<open>0 < r - c\<close> and \<open>r - c\<close> is below the minimum; and \<open>c\<close>
  otherwise. For a remaining quantity 12 and child size 10 it returns 12.
\<close>

theorem C4_optimal_order_size:
  "MIN_ORDER_SIZE = 5
   \<and> (r < MIN_ORDER_SIZE \<longrightarrow> get_optimal_order_size s r = 0)
   \<and> (\<not> r < MIN_ORDER_SIZE \<and> r \<le> child_order_size s \<longrightarrow> get_optimal_order_size s r = r)
   \<and> (\<not> r < MIN_ORDER_SIZE \<and> \<not> r \<le> child_order_size s
        \<and> 0 < r - child_order_size s \<and> r - child_order_size s < MIN_ORDER_SIZE
        \<longrightarrow> get_optimal_order_size s r = r)
   \<and> (\<not> r < MIN_ORDER_SIZE \<and> \<not> r \<le> child_order_size s
        \<and> \<not> (0 < r - child_order_size s \<and> r - child_order_size s < MIN_ORDER_SIZE)
        \<longrightarrow> get_optimal_order_size s r = child_order_size s)
   \<and> (child_order_size s = 10 \<longrightarrow> get_optimal_order_size s 12 = 12)"
  by (simp add: get_optimal_order_size_def MIN_ORDER_SIZE_def Let_def)

theorem C4_optimal_order_size_witness:
  "get_optimal_order_size example_strategy 3 = 0
   \<and> get_optimal_order_size example_strategy 8 = 8
   \<and> get_optimal_order_size example_strategy 12 = 12
   \<and> get_optimal_order_size example_strategy 20 = 10"
  using C4_optimal_order_size [of 3 example_strategy]
    C4_optimal_order_size [of 8 example_strategy]
    C4_optimal_order_size [of 12 example_strategy]
    C4_optimal_order_size [of 20 example_strategy]
  by (simp add: TopOfBookStrategy_init_def)

subsection \<open>Top-of-Book Maker: target price\<close>













subsection \<open>Top-of-Book Maker: limit price\<close>

lemma cancel_stale_calls:
  "cancel_stale s tgt env t orders = (t', calls, exn) \<Longrightarrow> c \<in> set calls \<Longrightarrow> \<exists>i. c = CancelCall i"
proof (induction orders arbitrary: t t' calls exn)
  case Nil
  then show ?case by simp
next
  case (Cons od orders)
  then show ?case
    by (auto split: if_splits sum.splits prod.splits)
qed

lemma remove_pending_order_length:
  "length (pending_orders (remove_pending_order t oid)) \<le> length (pending_orders t)"
  by (simp add: remove_pending_order_def length_delete_le)

lemma cancel_stale_length:
  "cancel_stale s tgt env t orders = (t', calls, exn) \<Longrightarrow>
     length (pending_orders t') \<le> length (pending_orders t)"
proof (induction orders arbitrary: t t' calls exn)
  case Nil
  then show ?case by simp
next
  case (Cons od orders)
  show ?case
  proof (cases "off_target s tgt od")
    case False
    with Cons show ?thesis by simp
  next
    case True
    show ?thesis
    proof (cases "env (order_id od)")
      case (Inl e)
      with True Cons.prems show ?thesis by simp
    next
      case (Inr b)
      obtain t2 calls2 exn2 where
        r: "cancel_stale s tgt env (remove_pending_order t (order_id od)) orders = (t2, calls2, exn2)"
        by (cases "cancel_stale s tgt env (remove_pending_order t (order_id od)) orders") auto
      with True Inr Cons.prems have "t' = t2" by simp
      with Cons.IH [OF r] remove_pending_order_length [of t "order_id od"]
      show ?thesis by simp
    qed
  qed
qed

lemma place_new_order_calls:
  assumes "place_new_order s p sz outcome now = (s', calls, exn)"
  shows "side s' = side s \<and> limit_price s' = limit_price s
    \<and> (\<forall>c \<in> set calls. c = PlaceCall (token_id (position_tracker s)) p sz (side s)
                         \<and> should_place_order s p)"
  using assms
  by (auto simp: place_new_order_def Let_def
      split: if_splits place_outcome.splits option.splits)

lemma should_place_order_limit:
  "should_place_order s p \<Longrightarrow>
     (side s = BUY \<longrightarrow> p \<le> limit_price s) \<and> (side s = SELL \<longrightarrow> limit_price s \<le> p)
     \<and> length (get_pending_orders (position_tracker s)) < 3"
  by (auto simp: should_place_order_def split: if_splits)

lemma adjust_orders_calls:
  assumes "adjust_orders s md cenv outcome now = (s', calls, exn)"
    and "PlaceCall tok p sz sd \<in> set calls"
  shows "sd = side s \<and> (side s = BUY \<longrightarrow> p \<le> limit_price s)
       \<and> (side s = SELL \<longrightarrow> limit_price s \<le> p)"
proof -
  let ?top = "if side s = BUY then top_bid md else top_ask md"
  let ?tgt = "calculate_target_price s ?top"
  obtain t1 calls1 exn1 where
    cs: "cancel_stale s ?tgt cenv (position_tracker s) (get_pending_orders (position_tracker s))
           = (t1, calls1, exn1)"
    by (cases "cancel_stale s ?tgt cenv (position_tracker s)
                 (get_pending_orders (position_tracker s))") auto
  let ?s1 = "s\<lparr>position_tracker := t1\<rparr>"
  have not1: "PlaceCall tok p sz sd \<notin> set calls1"
    using cancel_stale_calls [OF cs] by blast
  let ?sz = "get_optimal_order_size ?s1 (get_remaining_quantity t1)"
  obtain s2 calls2 exn2 where
    pn: "place_new_order ?s1 ?tgt ?sz outcome now = (s2, calls2, exn2)"
    by (cases "place_new_order ?s1 ?tgt ?sz outcome now") auto
  from assms(1) cs pn have "set calls \<subseteq> set calls1 \<union> set calls2"
    by (auto simp: adjust_orders_def Let_def split: option.splits if_splits)
  with assms(2) not1 have "PlaceCall tok p sz sd \<in> set calls2" by blast
  with place_new_order_calls [OF pn]
  have "sd = side ?s1" and "p = ?tgt" and "should_place_order ?s1 p" by auto
  with should_place_order_limit [of ?s1 p] show ?thesis by simp
qed

text \<open>
  C2. No order the strategy places crosses the limit price: \<^verbatim>\<open>_should_place_order\<close>
  refuses a price above the limit when buying and below it when selling, and every
  \<^verbatim>\<open>place_order\<close> call that \<^verbatim>\<open>_place_new_order\<close>, \<^verbatim>\<open>_adjust_orders\<close> or
  \<^verbatim>\<open>process_market_update\<close> makes, for any market data, any pending orders and any
  answers of the executor, carries the strategy's side and a price that is at most the
  limit when the side is BUY and at least the limit when it is SELL.
\<close>

theorem C2_limit_never_crossed:
  "(should_place_order s p \<longrightarrow>
      (side s = BUY \<longrightarrow> p \<le> limit_price s) \<and> (side s = SELL \<longrightarrow> limit_price s \<le> p))
   \<and> (place_new_order s p sz outcome now = (s', calls, exn)
        \<and> PlaceCall tok q qsz sd \<in> set calls
      \<longrightarrow> q = p \<and> sd = side s \<and> (side s = BUY \<longrightarrow> q \<le> limit_price s)
          \<and> (side s = SELL \<longrightarrow> limit_price s \<le> q))
   \<and> (adjust_orders s md cenv outcome now = (s', calls, exn)
        \<and> PlaceCall tok q qsz sd \<in> set calls
      \<longrightarrow> sd = side s \<and> (side s = BUY \<longrightarrow> q \<le> limit_price s)
          \<and> (side s = SELL \<longrightarrow> limit_price s \<le> q))
   \<and> (process_market_update s md cenv outcome now = (s', calls, exn)
        \<and> PlaceCall tok q qsz sd \<in> set calls
      \<longrightarrow> sd = side s \<and> (side s = BUY \<longrightarrow> q \<le> limit_price s)
          \<and> (side s = SELL \<longrightarrow> limit_price s \<le> q))"
proof (intro conjI impI; (elim conjE)?)
  assume "should_place_order s p" and "side s = BUY"
  then show "p \<le> limit_price s" using should_place_order_limit by blast
next
  assume "should_place_order s p" and "side s = SELL"
  then show "limit_price s \<le> p" using should_place_order_limit by blast
next
  assume a: "place_new_order s p sz outcome now = (s', calls, exn)"
    "PlaceCall tok q qsz sd \<in> set calls"
  with place_new_order_calls [OF a(1)] have e: "q = p" "sd = side s" "should_place_order s p"
    by auto
  then show "q = p" "sd = side s" by simp_all
  { assume "side s = BUY" with e show "q \<le> limit_price s"
      using should_place_order_limit by blast }
  { assume "side s = SELL" with e show "limit_price s \<le> q"
      using should_place_order_limit by blast }
next
  assume a: "adjust_orders s md cenv outcome now = (s', calls, exn)"
    "PlaceCall tok q qsz sd \<in> set calls"
  from adjust_orders_calls [OF a] show "sd = side s" by simp
  { assume "side s = BUY" with adjust_orders_calls [OF a] show "q \<le> limit_price s" by simp }
  { assume "side s = SELL" with adjust_orders_calls [OF a] show "limit_price s \<le> q" by simp }
next
  assume a: "process_market_update s md cenv outcome now = (s', calls, exn)"
    "PlaceCall tok q qsz sd \<in> set calls"
  let ?s1 = "s\<lparr>current_market_data := Some md\<rparr>"
  from a have b: "adjust_orders ?s1 md cenv outcome now = (s', calls, exn)"
    by (auto simp: process_market_update_def Let_def split: if_splits)
  from adjust_orders_calls [OF b a(2)] show "sd = side s" by simp
  { assume "side s = BUY" with adjust_orders_calls [OF b a(2)] show "q \<le> limit_price s" by simp }
  { assume "side s = SELL" with adjust_orders_calls [OF b a(2)] show "limit_price s \<le> q" by simp }
qed

text \<open>The definitions a concrete run of the strategy unfolds.\<close>

lemmas ev_defs = process_market_update_def should_adjust_orders_def is_target_reached_def
  adjust_orders_def place_new_order_def should_place_order_def
  calculate_target_price_def our_best_buy_def py_round_def off_target_def
  get_optimal_order_size_def get_remaining_quantity_def MIN_ORDER_SIZE_def
  TopOfBookStrategy_init_def PositionTracker_init_def get_pending_orders_def
  add_pending_order_def remove_pending_order_def BUY_def SELL_def Let_def

theorem C2_limit_never_crossed_witness:
  "should_place_order example_strategy (51 / 100)
   \<and> fst (snd (place_new_order example_strategy (51 / 100) 10 (PlaceReturns (Some ''o1'')) 2))
       = [PlaceCall ''tok'' (51 / 100) 10 BUY]
   \<and> fst (snd (adjust_orders example_strategy example_idle_market (\<lambda>_. Inr True)
         (PlaceReturns (Some ''o1'')) 2)) = [PlaceCall ''tok'' (51 / 100) 10 BUY]
   \<and> fst (snd (process_market_update example_strategy example_idle_market (\<lambda>_. Inr True)
         (PlaceReturns (Some ''o1'')) 2)) = [PlaceCall ''tok'' (51 / 100) 10 BUY]
   \<and> side example_strategy = BUY \<and> 51 / 100 \<le> limit_price example_strategy"
proof -
  let ?out = "PlaceReturns (Some ''o1'')"
  let ?r = "process_market_update example_strategy example_idle_market (\<lambda>_. Inr True) ?out 2"
  have sp: "should_place_order example_strategy (51 / 100)"
    by (simp add: ev_defs)
  have pn: "fst (snd (place_new_order example_strategy (51 / 100) 10 ?out 2))
       = [PlaceCall ''tok'' (51 / 100) 10 BUY]"
    by (simp add: ev_defs)
  have ad: "fst (snd (adjust_orders example_strategy example_idle_market (\<lambda>_. Inr True) ?out 2))
       = [PlaceCall ''tok'' (51 / 100) 10 BUY]"
    by (simp add: ev_defs)
  have pm: "fst (snd ?r) = [PlaceCall ''tok'' (51 / 100) 10 BUY]"
    by (simp add: ev_defs)
  have sd: "side example_strategy = BUY"
    by (simp add: TopOfBookStrategy_init_def)
  have e: "?r = (fst ?r, fst (snd ?r), snd (snd ?r))" by simp
  have "PlaceCall ''tok'' (51 / 100) 10 BUY \<in> set (fst (snd ?r))"
    using pm by simp
  with e C2_limit_never_crossed [where s = example_strategy and md = example_idle_market
      and cenv = "\<lambda>_. Inr True" and outcome = ?out and now = 2 and s' = "fst ?r"
      and calls = "fst (snd ?r)" and exn = "snd (snd ?r)" and tok = "''tok''"
      and q = "51 / 100" and qsz = 10 and sd = BUY] sd
  have "51 / 100 \<le> limit_price example_strategy" by blast
  with sp pn ad pm sd show ?thesis by blast
qed

text \<open>
  The price \<^verbatim>\<open>_calculate_target_price\<close> returns is rounded after it is clamped, so it
  can lie beyond the limit; \<^verbatim>\<open>_should_place_order\<close> then refuses it. With limit 0.555
  and tick 0.01 the clamped price 0.555 is rounded to 0.56, and no order is placed.
\<close>

lemma rounded_target_beyond_limit:
  "calculate_target_price
     (TopOfBookStrategy_init (PositionTracker_init ''tok'' 20) 10 (555 / 1000) (1 / 100) BUY 1 False)
     (60 / 100) = 56 / 100
   \<and> fst (snd (process_market_update
       (TopOfBookStrategy_init (PositionTracker_init ''tok'' 20) 10 (555 / 1000) (1 / 100) BUY 1 False)
       \<lparr>asset_id = ''tok'', top_bid = 60 / 100, top_ask = 70 / 100, bid_size = 10,
         ask_size = 10, timestamp = 1\<rparr>
       (\<lambda>_. Inr True) (PlaceReturns (Some ''o1'')) 2)) = []"
  by (simp add: ev_defs)

subsection \<open>Top-of-Book Maker: pending orders\<close>

lemma add_pending_order_length:
  "length (pending_orders (add_pending_order t oid p sz now)) \<le> Suc (length (pending_orders t))"
proof -
  have "length (AList.update k v al) \<le> Suc (length al)" for k :: string and v :: OrderState and al
    by (induction al) auto
  then show ?thesis by (simp add: add_pending_order_def)
qed

lemma place_new_order_length:
  assumes "place_new_order s p sz outcome now = (s', calls, exn)"
  shows "length (pending_orders (position_tracker s'))
           \<le> max 3 (length (pending_orders (position_tracker s)))"
proof (cases "should_place_order s p")
  case False
  with assms show ?thesis by (simp add: place_new_order_def)
next
  case True
  then have lt: "length (pending_orders (position_tracker s)) < 3"
    using should_place_order_limit [of s p] by (simp add: get_pending_orders_def)
  have "length (pending_orders (position_tracker s'))
          \<le> Suc (length (pending_orders (position_tracker s)))"
    using assms True add_pending_order_length [of "position_tracker s" _ p sz now]
    by (auto simp: place_new_order_def Let_def le_SucI
        split: place_outcome.splits option.splits if_splits)
  with lt show ?thesis by simp
qed

lemma adjust_orders_length:
  assumes "adjust_orders s md cenv outcome now = (s', calls, exn)"
  shows "length (pending_orders (position_tracker s'))
           \<le> max 3 (length (pending_orders (position_tracker s)))"
proof -
  let ?top = "if side s = BUY then top_bid md else top_ask md"
  let ?tgt = "calculate_target_price s ?top"
  obtain t1 calls1 exn1 where
    cs: "cancel_stale s ?tgt cenv (position_tracker s) (get_pending_orders (position_tracker s))
           = (t1, calls1, exn1)"
    by (cases "cancel_stale s ?tgt cenv (position_tracker s)
                 (get_pending_orders (position_tracker s))") auto
  let ?s1 = "s\<lparr>position_tracker := t1\<rparr>"
  have l1: "length (pending_orders t1) \<le> length (pending_orders (position_tracker s))"
    using cancel_stale_length [OF cs] .
  let ?sz = "get_optimal_order_size ?s1 (get_remaining_quantity t1)"
  obtain s2 calls2 exn2 where
    pn: "place_new_order ?s1 ?tgt ?sz outcome now = (s2, calls2, exn2)"
    by (cases "place_new_order ?s1 ?tgt ?sz outcome now") auto
  have l2: "length (pending_orders (position_tracker s2)) \<le> max 3 (length (pending_orders t1))"
    using place_new_order_length [OF pn] by simp
  from assms cs pn have "s' = ?s1 \<or> s' = s2"
    by (auto simp: adjust_orders_def Let_def split: option.splits if_splits)
  with l1 l2 show ?thesis by auto
qed

text \<open>
  C10. \<^verbatim>\<open>_should_place_order\<close> returns false whenever the tracker holds 3 or more pending
  orders, so neither \<^verbatim>\<open>_place_new_order\<close> nor \<^verbatim>\<open>_adjust_orders\<close> nor
  \<^verbatim>\<open>process_market_update\<close> leaves more pending orders than 3 (or than there were
  before the call, if that was more). The bound is the constant 3: the strategy built
  from a configuration is the same whatever \<^verbatim>\<open>max_pending_orders\<close> the configuration
  holds.
\<close>

theorem C10_pending_bound:
  "(3 \<le> length (get_pending_orders (position_tracker s)) \<longrightarrow> \<not> should_place_order s p)
   \<and> (place_new_order s p sz outcome now = (s', calls, exn) \<longrightarrow>
        length (get_pending_orders (position_tracker s'))
          \<le> max 3 (length (get_pending_orders (position_tracker s))))
   \<and> (adjust_orders s md cenv outcome now = (s', calls, exn) \<longrightarrow>
        length (get_pending_orders (position_tracker s'))
          \<le> max 3 (length (get_pending_orders (position_tracker s))))
   \<and> (process_market_update s md cenv outcome now = (s', calls, exn) \<longrightarrow>
        length (get_pending_orders (position_tracker s'))
          \<le> max 3 (length (get_pending_orders (position_tracker s))))
   \<and> OrderManager_strategy (config\<lparr>max_pending_orders := m\<rparr>) = OrderManager_strategy config"
proof (intro conjI impI)
  assume "3 \<le> length (get_pending_orders (position_tracker s))"
  then show "\<not> should_place_order s p"
    by (simp add: should_place_order_def)
next
  assume "place_new_order s p sz outcome now = (s', calls, exn)"
  from place_new_order_length [OF this]
  show "length (get_pending_orders (position_tracker s'))
          \<le> max 3 (length (get_pending_orders (position_tracker s)))"
    by (simp add: get_pending_orders_def)
next
  assume "adjust_orders s md cenv outcome now = (s', calls, exn)"
  from adjust_orders_length [OF this]
  show "length (get_pending_orders (position_tracker s'))
          \<le> max 3 (length (get_pending_orders (position_tracker s)))"
    by (simp add: get_pending_orders_def)
next
  assume a: "process_market_update s md cenv outcome now = (s', calls, exn)"
  let ?s1 = "s\<lparr>current_market_data := Some md\<rparr>"
  from a have "s' = ?s1 \<or> adjust_orders ?s1 md cenv outcome now = (s', calls, exn)"
    by (auto simp: process_market_update_def Let_def split: if_splits)
  then show "length (get_pending_orders (position_tracker s'))
          \<le> max 3 (length (get_pending_orders (position_tracker s)))"
    using adjust_orders_length [of ?s1 md cenv outcome now s' calls exn]
    by (auto simp: get_pending_orders_def)
next
  show "OrderManager_strategy (config\<lparr>max_pending_orders := m\<rparr>) = OrderManager_strategy config"
    by (simp add: OrderManager_strategy_def)
qed

theorem C10_pending_bound_witness:
  "3 \<le> length (get_pending_orders (position_tracker example_full))
   \<and> \<not> should_place_order example_full (51 / 100)
   \<and> length (get_pending_orders (position_tracker (fst (process_market_update example_full
         example_idle_market (\<lambda>_. Inr True) (PlaceReturns (Some ''o4'')) 2)))) \<le> 3
   \<and> length (get_pending_orders (position_tracker (fst (adjust_orders example_full
         example_idle_market (\<lambda>_. Inr True) (PlaceReturns (Some ''o4'')) 2)))) \<le> 3
   \<and> length (get_pending_orders (position_tracker (fst (place_new_order example_full
         (51 / 100) 5 (PlaceReturns (Some ''o4'')) 2)))) \<le> 3
   \<and> OrderManager_strategy (example_config\<lparr>max_pending_orders := 10\<rparr>) = Some example_strategy"
proof -
  let ?out = "PlaceReturns (Some ''o4'')"
  let ?r = "process_market_update example_full example_idle_market (\<lambda>_. Inr True) ?out 2"
  let ?a = "adjust_orders example_full example_idle_market (\<lambda>_. Inr True) ?out 2"
  let ?p = "place_new_order example_full (51 / 100) 5 ?out 2"
  have n: "length (get_pending_orders (position_tracker example_full)) = 3"
    by (simp add: ev_defs)
  have c: "OrderManager_strategy example_config = Some example_strategy"
    by (simp add: OrderManager_strategy_def)
  have r: "?r = (fst ?r, fst (snd ?r), snd (snd ?r))"
    and a: "?a = (fst ?a, fst (snd ?a), snd (snd ?a))"
    and p: "?p = (fst ?p, fst (snd ?p), snd (snd ?p))" by simp_all
  from C10_pending_bound [where s = example_full and p = "51 / 100" and md = example_idle_market
      and cenv = "\<lambda>_. Inr True" and outcome = ?out and now = 2 and s' = "fst ?r"
      and calls = "fst (snd ?r)" and exn = "snd (snd ?r)" and config = example_config
      and m = 10] n r c
  have 1: "\<not> should_place_order example_full (51 / 100)"
    and 2: "length (get_pending_orders (position_tracker (fst ?r))) \<le> 3"
    and 3: "OrderManager_strategy (example_config\<lparr>max_pending_orders := 10\<rparr>)
              = Some example_strategy"
    by simp_all
  from C10_pending_bound [where s = example_full and md = example_idle_market
      and cenv = "\<lambda>_. Inr True" and outcome = ?out and now = 2 and s' = "fst ?a"
      and calls = "fst (snd ?a)" and exn = "snd (snd ?a)"] n a
  have 4: "length (get_pending_orders (position_tracker (fst ?a))) \<le> 3" by simp
  from C10_pending_bound [where s = example_full and p = "51 / 100" and sz = 5
      and outcome = ?out and now = 2 and s' = "fst ?p"
      and calls = "fst (snd ?p)" and exn = "snd (snd ?p)"] n p
  have 5: "length (get_pending_orders (position_tracker (fst ?p))) \<le> 3" by simp
  from n 1 2 3 4 5 show ?thesis by simp
qed

subsection \<open>RateLimiter\<close>

lemma acquire_refill:
  "acquire rl now =
     (let r = min (max_requests_per_second rl)
                  (tokens rl + (now - last_update rl) * max_requests_per_second rl)
      in if 1 \<le> r then (True, rl\<lparr>tokens := r - 1, last_update := now\<rparr>)
         else (False, rl\<lparr>tokens := r, last_update := now\<rparr>))"
  by (simp add: acquire_def Let_def)

lemma acquire_tokens_le:
  "tokens (snd (acquire rl now)) \<le> max_requests_per_second rl
   \<and> max_requests_per_second (snd (acquire rl now)) = max_requests_per_second rl
   \<and> last_update (snd (acquire rl now)) = now"
  by (simp add: acquire_refill Let_def min_def)

lemma acquire_seq_Cons:
  "acquire_seq rl (t # ts) =
     (fst (acquire rl t) # fst (acquire_seq (snd (acquire rl t)) ts),
      snd (acquire_seq (snd (acquire rl t)) ts))"
  by (simp add: split_beta)

lemma acquire_seq_max:
  "max_requests_per_second (snd (acquire_seq rl ts)) = max_requests_per_second rl"
proof (induction ts arbitrary: rl)
  case Nil
  then show ?case by simp
next
  case (Cons t ts)
  from Cons [of "snd (acquire rl t)"] acquire_tokens_le [of rl t]
  show ?case by (simp only: acquire_seq_Cons snd_conv)
qed






subsection \<open>OrderExecutor: cancelling with retries\<close>

lemma cancel_attempt_cases:
  "cancel_attempt oid M a g out = (r, ev) \<Longrightarrow>
     r \<noteq> Some (Inr False)
     \<and> (int a = M - 1 \<longrightarrow> r \<noteq> None)
     \<and> attempts_made ev = 1
     \<and> (r = Some (Inr True) \<longrightarrow>
          g \<and> (\<exists>resp. out = ClientReturns resp \<and> cancel_succeeded oid resp))"
  by (auto simp: cancel_attempt_def Let_def attempts_made_def is_acquire_def
      split: if_splits client_outcome.splits)

lemma cancel_attempt_events:
  "cancel_attempt oid M a g out = (r, ev) \<Longrightarrow>
     (ev = [Acquire False] \<and> r = Some (Inl (RateLimitExhausted oid M)))
     \<or> (ev = [Acquire False, Sleep 1] \<and> r = None)
     \<or> (ev = [Acquire True, ClientCancel [oid] out] \<and> g)
     \<or> (ev = [Acquire True, ClientCancel [oid] out, Sleep 1] \<and> g \<and> r = None)"
  by (auto simp: cancel_attempt_def Let_def split: if_splits client_outcome.splits)

lemma cancel_attempt_success:
  "cancel_attempt oid M a g out = (r, ev) \<Longrightarrow> ClientCancel ids (ClientReturns resp) \<in> set ev \<Longrightarrow>
     cancel_succeeded oid resp \<Longrightarrow> r = Some (Inr True)"
  by (auto simp: cancel_attempt_def Let_def split: if_splits client_outcome.splits)

lemma cancel_attempts_SucE:
  assumes "cancel_attempts oid M clock client (Suc n) a rl = (res, ev, rl')"
  obtains (stop) g rl1 where "acquire rl (clock a) = (g, rl1)"
      and "cancel_attempt oid M a g (client a) = (Some res, ev)" and "rl' = rl1"
    | (continue) g rl1 e ev' where "acquire rl (clock a) = (g, rl1)"
      and "cancel_attempt oid M a g (client a) = (None, e)"
      and "cancel_attempts oid M clock client n (Suc a) rl1 = (res, ev', rl')"
      and "ev = e @ ev'"
  using assms by (auto split: prod.splits option.splits)

lemma cancel_attempts_not_False:
  "int a + int n = M \<Longrightarrow> 0 < n \<Longrightarrow>
     cancel_attempts oid M clock client n a rl = (res, ev, rl') \<Longrightarrow> res \<noteq> Inr False"
proof (induction n arbitrary: a rl res ev rl')
  case 0
  then show ?case by simp
next
  case (Suc n)
  from Suc.prems(3) show ?case
  proof (cases rule: cancel_attempts_SucE)
    case (stop g rl1)
    with cancel_attempt_cases [OF stop(2)] show ?thesis by simp
  next
    case (continue g rl1 e ev')
    from cancel_attempt_cases [OF continue(2)] have "int a \<noteq> M - 1" by auto
    with Suc.prems(1) have "0 < n" and "int (Suc a) + int n = M" by auto
    with Suc.IH [OF _ _ continue(3)] show ?thesis by simp
  qed
qed

lemma attempts_made_append:
  "attempts_made (xs @ ys) = attempts_made xs + attempts_made ys"
  by (simp add: attempts_made_def)

lemma cancel_attempts_count:
  "cancel_attempts oid M clock client n a rl = (res, ev, rl') \<Longrightarrow> attempts_made ev \<le> n"
proof (induction n arbitrary: a rl res ev rl')
  case 0
  then show ?case by (simp add: attempts_made_def)
next
  case (Suc n)
  from Suc.prems show ?case
  proof (cases rule: cancel_attempts_SucE)
    case (stop g rl1)
    with cancel_attempt_cases [OF stop(2)] show ?thesis by simp
  next
    case (continue g rl1 e ev')
    with cancel_attempt_cases [OF continue(2)] Suc.IH [OF continue(3)]
    show ?thesis by (simp add: attempts_made_append)
  qed
qed

lemma cancel_attempts_True:
  "cancel_attempts oid M clock client n a rl = (res, ev, rl') \<Longrightarrow> res = Inr True \<Longrightarrow>
     \<exists>k resp. a \<le> k \<and> k < a + n \<and> client k = ClientReturns resp \<and> cancel_succeeded oid resp
       \<and> ClientCancel [oid] (client k) \<in> set ev"
proof (induction n arbitrary: a rl ev rl')
  case 0
  then show ?case by simp
next
  case (Suc n)
  from Suc.prems(1) show ?case
  proof (cases rule: cancel_attempts_SucE)
    case (stop g rl1)
    from cancel_attempt_cases [OF stop(2)] cancel_attempt_events [OF stop(2)] Suc.prems(2)
    have "\<exists>resp. client a = ClientReturns resp \<and> cancel_succeeded oid resp"
      and "ClientCancel [oid] (client a) \<in> set ev" by auto
    then show ?thesis by (intro exI [of _ a]) auto
  next
    case (continue g rl1 e ev')
    from Suc.IH [OF continue(3) Suc.prems(2)] obtain k resp where
      "Suc a \<le> k" "k < Suc a + n" "client k = ClientReturns resp" "cancel_succeeded oid resp"
      "ClientCancel [oid] (client k) \<in> set ev'" by blast
    with continue(4) show ?thesis by (intro exI [of _ k] exI [of _ resp]) auto
  qed
qed

lemma cancel_attempts_success:
  "cancel_attempts oid M clock client n a rl = (res, ev, rl') \<Longrightarrow>
     ClientCancel ids (ClientReturns resp) \<in> set ev \<Longrightarrow> cancel_succeeded oid resp \<Longrightarrow>
     res = Inr True"
proof (induction n arbitrary: a rl ev rl')
  case 0
  then show ?case by simp
next
  case (Suc n)
  from Suc.prems(1) show ?case
  proof (cases rule: cancel_attempts_SucE)
    case (stop g rl1)
    from cancel_attempt_success [OF stop(2) Suc.prems(2,3)] show ?thesis by simp
  next
    case (continue g rl1 e ev')
    show ?thesis
    proof (cases "ClientCancel ids (ClientReturns resp) \<in> set e")
      case True
      from cancel_attempt_success [OF continue(2) True Suc.prems(3)] show ?thesis by simp
    next
      case False
      with Suc.prems(2) continue(4) have "ClientCancel ids (ClientReturns resp) \<in> set ev'" by simp
      from Suc.IH [OF continue(3) this Suc.prems(3)] show ?thesis .
    qed
  qed
qed

text \<open>In a trace, a denial is followed by a one-second sleep, or it is the last event
  and the call raises the rate-limit exception.\<close>

lemma cancel_attempts_backoff:
  "cancel_attempts oid M clock client n a rl = (res, ev, rl') \<Longrightarrow>
     i < length ev \<Longrightarrow> ev ! i = Acquire False \<Longrightarrow>
     (if Suc i < length ev then ev ! Suc i = Sleep 1
      else res = Inl (RateLimitExhausted oid M))"
proof (induction n arbitrary: a rl ev rl' i)
  case 0
  then show ?case by simp
next
  case (Suc n)
  from Suc.prems(1) show ?case
  proof (cases rule: cancel_attempts_SucE)
    case (stop g rl1)
    from cancel_attempt_events [OF stop(2)] Suc.prems(2,3) show ?thesis
      by (auto simp: nth_Cons' split: if_splits)
  next
    case (continue g rl1 e ev')
    note IH = Suc.IH [OF continue(3)]
    from cancel_attempt_events [OF continue(2)]
    consider "e = [Acquire False, Sleep 1]"
      | "e = [Acquire True, ClientCancel [oid] (client a)]"
      | "e = [Acquire True, ClientCancel [oid] (client a), Sleep 1]" by auto
    then show ?thesis
    proof cases
      case 1
      show ?thesis
      proof (cases "i < 2")
        case True
        with 1 continue(4) Suc.prems(2,3) show ?thesis
          by (auto simp: nth_Cons' split: if_splits)
      next
        case False
        then obtain j where j: "i = j + 2" by (metis add.commute le_Suc_ex not_less)
        with 1 continue(4) Suc.prems(2,3) have "j < length ev'" "ev' ! j = Acquire False"
          by (auto simp: nth_Cons')
        from IH [OF this] j 1 continue(4) show ?thesis by (simp add: nth_Cons')
      qed
    next
      case 2
      show ?thesis
      proof (cases "i < 2")
        case True
        with 2 continue(4) Suc.prems(2,3) show ?thesis
          by (auto simp: nth_Cons' split: if_splits)
      next
        case False
        then obtain j where j: "i = j + 2" by (metis add.commute le_Suc_ex not_less)
        with 2 continue(4) Suc.prems(2,3) have "j < length ev'" "ev' ! j = Acquire False"
          by (auto simp: nth_Cons')
        from IH [OF this] j 2 continue(4) show ?thesis by (simp add: nth_Cons')
      qed
    next
      case 3
      show ?thesis
      proof (cases "i < 3")
        case True
        with 3 continue(4) Suc.prems(2,3) show ?thesis
          by (auto simp: nth_Cons' split: if_splits)
      next
        case False
        then obtain j where j: "i = j + 3" by (metis add.commute le_Suc_ex not_less)
        with 3 continue(4) Suc.prems(2,3) have "j < length ev'" "ev' ! j = Acquire False"
          by (auto simp: nth_Cons')
        from IH [OF this] j 3 continue(4) show ?thesis by (simp add: nth_Cons')
      qed
    qed
  qed
qed

text \<open>
  C7, as the claim states it, fails when \<^verbatim>\<open>max_retries\<close> is 0: the loop body never
  runs, no attempt reports success, and the call returns \<^verbatim>\<open>False\<close> instead of raising.
\<close>

theorem C7_cancel_retries_counterexample:
  "cancel_order ''o1'' 0 (\<lambda>_. 0) (\<lambda>_. ClientReturns RespFalsy) (RateLimiter_init 5 0)
     = (Inr False, [], RateLimiter_init 5 0)"
  by (simp add: cancel_order_def)

text \<open>
  C7, amended. \<^verbatim>\<open>cancel_order(id, max_retries)\<close> makes at most \<^verbatim>\<open>max_retries\<close>
  attempts. A denial by the rate limiter uses up its attempt and is followed by a sleep
  of one second before the next attempt, or, on the last attempt, by the rate-limit
  exception. When \<^verbatim>\<open>max_retries\<close> is at least 1 the call returns \<^verbatim>\<open>True\<close> or raises,
  and it returns \<^verbatim>\<open>True\<close> only if the client's answer at some attempt reported success.
  When \<^verbatim>\<open>max_retries\<close> is 0 or less it makes no attempt and returns \<^verbatim>\<open>False\<close>.
\<close>

theorem C7_cancel_retries:
  assumes "cancel_order oid max_retries clock client rl = (res, events, rl')"
  shows "int (attempts_made events) \<le> max 0 max_retries
    \<and> (\<forall>i < length events. events ! i = Acquire False \<longrightarrow>
         (if Suc i < length events then events ! Suc i = Sleep 1
          else res = Inl (RateLimitExhausted oid max_retries)))
    \<and> (0 < max_retries \<longrightarrow> res = Inr True \<or> (\<exists>e. res = Inl e))
    \<and> (res = Inr True \<longrightarrow>
         (\<exists>k resp. k < nat max_retries \<and> client k = ClientReturns resp
            \<and> cancel_succeeded oid resp \<and> ClientCancel [oid] (client k) \<in> set events))
    \<and> (max_retries \<le> 0 \<longrightarrow> res = Inr False \<and> events = [])"
proof -
  from assms have run:
    "cancel_attempts oid max_retries clock client (nat max_retries) 0 rl = (res, events, rl')"
    by (simp add: cancel_order_def)
  have count: "int (attempts_made events) \<le> max 0 max_retries"
    using cancel_attempts_count [OF run] by simp
  have backoff: "\<forall>i < length events. events ! i = Acquire False \<longrightarrow>
         (if Suc i < length events then events ! Suc i = Sleep 1
          else res = Inl (RateLimitExhausted oid max_retries))"
    using cancel_attempts_backoff [OF run] by blast
  have raises: "0 < max_retries \<longrightarrow> res = Inr True \<or> (\<exists>e. res = Inl e)"
  proof
    assume "0 < max_retries"
    then have "int 0 + int (nat max_retries) = max_retries" and "0 < nat max_retries" by simp_all
    from cancel_attempts_not_False [OF this run] show "res = Inr True \<or> (\<exists>e. res = Inl e)"
      by (cases res) auto
  qed
  have success: "res = Inr True \<longrightarrow>
         (\<exists>k resp. k < nat max_retries \<and> client k = ClientReturns resp
            \<and> cancel_succeeded oid resp \<and> ClientCancel [oid] (client k) \<in> set events)"
    using cancel_attempts_True [OF run] by auto
  have none: "max_retries \<le> 0 \<longrightarrow> res = Inr False \<and> events = []"
    using run by auto
  from count backoff raises success none show ?thesis by blast
qed

theorem C7_cancel_retries_witness:
  "fst (cancel_order ''o1'' 3 (\<lambda>_. 0) (\<lambda>_. ClientReturns RespFalsy) (RateLimiter_init 1 0))
     = Inl (RateLimitExhausted ''o1'' 3)
   \<and> fst (snd (cancel_order ''o1'' 3 (\<lambda>_. 0) (\<lambda>_. ClientReturns RespFalsy) (RateLimiter_init 1 0)))
     = [Acquire True, ClientCancel [''o1''] (ClientReturns RespFalsy),
        Acquire False, Sleep 1, Acquire False]
   \<and> attempts_made (fst (snd (cancel_order ''o1'' 3 (\<lambda>_. 0) (\<lambda>_. ClientReturns RespFalsy)
        (RateLimiter_init 1 0)))) \<le> 3
   \<and> fst (cancel_order ''o1'' 0 (\<lambda>_. 0) (\<lambda>_. ClientReturns RespFalsy) (RateLimiter_init 1 0))
     = Inr False"
proof -
  let ?r = "cancel_order ''o1'' 3 (\<lambda>_. 0) (\<lambda>_. ClientReturns RespFalsy) (RateLimiter_init 1 0)"
  let ?z = "cancel_order ''o1'' 0 (\<lambda>_. 0) (\<lambda>_. ClientReturns RespFalsy) (RateLimiter_init 1 0)"
  have ev: "fst (snd ?r) = [Acquire True, ClientCancel [''o1''] (ClientReturns RespFalsy),
        Acquire False, Sleep 1, Acquire False]"
    by (simp add: cancel_order_def numeral_3_eq_3 acquire_def RateLimiter_init_def
        cancel_attempt_def cancel_succeeded_def Let_def)
  have r: "?r = (fst ?r, fst (snd ?r), snd (snd ?r))"
    and z: "?z = (fst ?z, fst (snd ?z), snd (snd ?z))" by simp_all
  have i: "4 < length (fst (snd ?r))" "fst (snd ?r) ! 4 = Acquire False"
    "\<not> Suc 4 < length (fst (snd ?r))"
    by (simp_all add: ev)
  from C7_cancel_retries [OF r]
  have 2: "int (attempts_made (fst (snd ?r))) \<le> max 0 3" by blast
  from C7_cancel_retries [OF r] i
  have 1: "fst ?r = Inl (RateLimitExhausted ''o1'' 3)" by metis
  from C7_cancel_retries [OF z] have 3: "fst ?z = Inr False" by simp
  from 1 2 3 ev show ?thesis by simp
qed

subsection \<open>Idempotent cancel\<close>

lemma remove_pending_order_absent:
  "oid \<notin> fst ` set (pending_orders (remove_pending_order t oid))"
  by (simp add: remove_pending_order_def delete_notin_dom)

text \<open>
  C8. Whenever the client, asked by \<^verbatim>\<open>cancel_order\<close>, answers that the order was
  already canceled (the entry of \<^verbatim>\<open>not_canceled\<close> for the order id is
  \<^verbatim>\<open>'order already canceled'\<close>), \<^verbatim>\<open>cancel_order\<close> returns \<^verbatim>\<open>True\<close>, not an error; so it
  does when the first attempt gets a token and that answer. Removing an order id from the
  tracker a second time changes nothing: after the first removal the id is absent, and
  removing an absent id leaves the tracker as it is.
\<close>

theorem C8_idempotent_cancel:
  "(cancel_order oid max_retries clock client rl = (res, events, rl')
      \<and> ClientCancel ids (ClientReturns (RespDict canceled not_canceled)) \<in> set events
      \<and> map_of not_canceled oid = Some ''order already canceled''
    \<longrightarrow> res = Inr True)
   \<and> (0 < max_retries \<and> fst (acquire rl (clock 0))
      \<and> client 0 = ClientReturns (RespDict canceled not_canceled)
      \<and> map_of not_canceled oid = Some ''order already canceled''
    \<longrightarrow> fst (cancel_order oid max_retries clock client rl) = Inr True)
   \<and> remove_pending_order (remove_pending_order t oid) oid = remove_pending_order t oid
   \<and> oid \<notin> fst ` set (pending_orders (remove_pending_order t oid))
   \<and> (oid \<notin> fst ` set (pending_orders t) \<longrightarrow> remove_pending_order t oid = t)"
proof (intro conjI impI; (elim conjE)?)
  assume run: "cancel_order oid max_retries clock client rl = (res, events, rl')"
    and ev: "ClientCancel ids (ClientReturns (RespDict canceled not_canceled)) \<in> set events"
    and reason: "map_of not_canceled oid = Some ''order already canceled''"
  from reason have "cancel_succeeded oid (RespDict canceled not_canceled)"
    by (simp add: cancel_succeeded_def)
  with run ev show "res = Inr True"
    unfolding cancel_order_def by (rule cancel_attempts_success)
next
  assume pos: "0 < max_retries" and g: "fst (acquire rl (clock 0))"
    and c: "client 0 = ClientReturns (RespDict canceled not_canceled)"
    and reason: "map_of not_canceled oid = Some ''order already canceled''"
  from pos obtain n where n: "nat max_retries = Suc n"
    by (cases "nat max_retries") auto
  from reason have "cancel_succeeded oid (RespDict canceled not_canceled)"
    by (simp add: cancel_succeeded_def)
  with g c show "fst (cancel_order oid max_retries clock client rl) = Inr True"
    by (simp add: cancel_order_def n cancel_attempt_def Let_def split_beta)
next
  show "remove_pending_order (remove_pending_order t oid) oid = remove_pending_order t oid"
    using remove_pending_order_absent [of oid t] by (simp add: remove_pending_order_def)
next
  show "oid \<notin> fst ` set (pending_orders (remove_pending_order t oid))"
    by (rule remove_pending_order_absent)
next
  assume "oid \<notin> fst ` set (pending_orders t)"
  then show "remove_pending_order t oid = t" by (simp add: remove_pending_order_def)
qed

theorem C8_idempotent_cancel_witness:
  "fst (cancel_order ''o1'' 5 (\<lambda>_. 0)
         (\<lambda>_. ClientReturns (RespDict [] [(''o1'', ''order already canceled'')]))
         (RateLimiter_init 5 0)) = Inr True
   \<and> pending_orders (remove_pending_order (position_tracker example_quoting) ''o1'') = []
   \<and> remove_pending_order (remove_pending_order (position_tracker example_quoting) ''o1'') ''o1''
       = remove_pending_order (position_tracker example_quoting) ''o1''"
proof -
  let ?resp = "RespDict [] [(''o1'', ''order already canceled'')]"
  let ?r = "cancel_order ''o1'' 5 (\<lambda>_. 0) (\<lambda>_. ClientReturns ?resp) (RateLimiter_init 5 0)"
  let ?t = "remove_pending_order (position_tracker example_quoting) ''o1''"
  have r: "?r = (fst ?r, fst (snd ?r), snd (snd ?r))" by simp
  have ev: "ClientCancel [''o1''] (ClientReturns ?resp) \<in> set (fst (snd ?r))"
    by (simp add: cancel_order_def numeral_eq_Suc acquire_def RateLimiter_init_def
        cancel_attempt_def cancel_succeeded_def Let_def)
  have m: "map_of [(''o1'', ''order already canceled'')] ''o1'' = Some ''order already canceled''"
    by simp
  have g: "(0::int) < 5 \<and> fst (acquire (RateLimiter_init 5 0) 0)"
    by (simp add: acquire_def RateLimiter_init_def Let_def)
  have e: "pending_orders ?t = []"
    by (simp add: remove_pending_order_def add_pending_order_def PositionTracker_init_def
        TopOfBookStrategy_init_def AList.delete_eq)
  then have a: "''o1'' \<notin> fst ` set (pending_orders ?t)" by simp
  from C8_idempotent_cancel [where oid = "''o1''" and max_retries = 5 and clock = "\<lambda>_. 0"
      and client = "\<lambda>_. ClientReturns ?resp" and rl = "RateLimiter_init 5 0"
      and res = "fst ?r" and events = "fst (snd ?r)" and rl' = "snd (snd ?r)"
      and ids = "[''o1'']" and canceled = "[]"
      and not_canceled = "[(''o1'', ''order already canceled'')]" and t = ?t] r ev m g a
  have "fst ?r = Inr True" and "remove_pending_order ?t ''o1'' = ?t" by blast+
  with e show ?thesis by simp
qed

subsection \<open>StopConditionManager\<close>

text \<open>
  C9, as the claim states it, fails for the timeout: one timeout, polled three times
  with \<^verbatim>\<open>should_stop\<close>, once before and twice after the deadline, invokes the callback
  twice.
\<close>

theorem C9_stop_callback_counterexample:
  "run_calls example_manager [ShouldStop 9000000, ShouldStop 11000000, ShouldStop 12000000]
     = [(''_handle_stop_condition'', ''timeout''), (''_handle_stop_condition'', ''timeout'')]"
  by (simp add: should_stop_def check_timeout_def set_stop_callback_def
      StopConditionManager_init_def Let_def)

lemma run_calls_should_stop_timeout:
  assumes "stop_callback m = Some cb" and "\<not> stop_requested m"
    and "\<forall>now \<in> set polls. now - start_time m > timeout_seconds m * 1000000"
  shows "run_calls m (map ShouldStop polls) = replicate (length polls) (cb, ''timeout'')"
  using assms by (induction polls) (simp_all add: should_stop_def check_timeout_def Let_def)

lemma run_calls_check_timeout:
  assumes "stop_callback m = Some cb"
    and "\<forall>now \<in> set polls. now - start_time m > timeout_seconds m * 1000000"
  shows "run_calls m (map CheckTimeout polls) = replicate (length polls) (cb, ''timeout'')"
  using assms by (induction polls) (simp_all add: check_timeout_def Let_def)

lemma run_calls_should_stop_requested:
  "stop_requested m \<Longrightarrow> run_calls m (map ShouldStop polls) = []"
  by (induction polls) (simp_all add: should_stop_def)

lemma run_calls_should_stop_early:
  assumes "\<forall>now \<in> set polls. \<not> now - start_time m > timeout_seconds m * 1000000"
  shows "run_calls m (map ShouldStop polls) = []"
  using assms by (induction polls) (simp_all add: should_stop_def check_timeout_def Let_def)

text \<open>
  C9, amended. With a callback set: a \<^verbatim>\<open>request_stop\<close> call invokes it once, with
  \<^verbatim>\<open>"manual_stop"\<close>, and no \<^verbatim>\<open>should_stop\<close> poll after it invokes it again. Every
  \<^verbatim>\<open>check_timeout\<close> poll that finds the timeout exceeded, and every such
  \<^verbatim>\<open>should_stop\<close> poll while no manual stop is requested, invokes it once with
  \<^verbatim>\<open>"timeout"\<close>: as many invocations as polls. Polls before the deadline invoke
  nothing, and no other reason string is ever passed.
\<close>

theorem C9_stop_callback:
  assumes "stop_callback m = Some cb"
  shows "snd (request_stop m) = [(cb, ''manual_stop'')]
    \<and> run_calls m (RequestStop # map ShouldStop polls) = [(cb, ''manual_stop'')]
    \<and> ((\<forall>now \<in> set polls. now - start_time m > timeout_seconds m * 1000000) \<longrightarrow>
         run_calls m (map CheckTimeout polls) = replicate (length polls) (cb, ''timeout'')
         \<and> (\<not> stop_requested m \<longrightarrow>
              run_calls m (map ShouldStop polls) = replicate (length polls) (cb, ''timeout'')))
    \<and> ((\<forall>now \<in> set polls. \<not> now - start_time m > timeout_seconds m * 1000000) \<longrightarrow>
         run_calls m (map ShouldStop polls) = [])
    \<and> (\<forall>calls. \<forall>inv \<in> set (run_calls m calls).
          inv = (cb, ''manual_stop'') \<or> inv = (cb, ''timeout''))"
proof -
  have 1: "snd (request_stop m) = [(cb, ''manual_stop'')]"
    using assms by (simp add: request_stop_def)
  have 2: "run_calls m (RequestStop # map ShouldStop polls) = [(cb, ''manual_stop'')]"
    using assms run_calls_should_stop_requested [of "m\<lparr>stop_requested := True\<rparr>" polls]
    by (simp add: request_stop_def)
  have 5: "inv \<in> set (run_calls m' calls) \<Longrightarrow> stop_callback m' = Some cb \<Longrightarrow>
      inv = (cb, ''manual_stop'') \<or> inv = (cb, ''timeout'')" for calls inv m'
  proof (induction m' calls rule: run_calls.induct)
    case (1 m)
    then show ?case by simp
  next
    case (2 m calls)
    then show ?case by (auto simp: request_stop_def)
  next
    case (3 m now calls)
    then show ?case by (auto simp: check_timeout_def Let_def split: if_splits)
  next
    case (4 m now calls)
    then show ?case by (auto simp: should_stop_def check_timeout_def Let_def split: if_splits)
  qed
  from 1 2 5 assms run_calls_check_timeout [OF assms, of polls]
    run_calls_should_stop_timeout [OF assms, of polls] run_calls_should_stop_early [of polls m]
  show ?thesis by blast
qed

theorem C9_stop_callback_witness:
  "run_calls example_manager (RequestStop # map ShouldStop [11000000, 12000000])
     = [(''_handle_stop_condition'', ''manual_stop'')]
   \<and> run_calls example_manager (map CheckTimeout [11000000, 12000000])
     = replicate 2 (''_handle_stop_condition'', ''timeout'')
   \<and> run_calls example_manager (map ShouldStop [11000000, 12000000])
     = replicate 2 (''_handle_stop_condition'', ''timeout'')
   \<and> run_calls example_manager (map ShouldStop [8000000, 9000000]) = []"
proof -
  have c: "stop_callback example_manager = Some ''_handle_stop_condition''"
    and r: "\<not> stop_requested example_manager"
    by (simp_all add: set_stop_callback_def StopConditionManager_init_def)
  have late: "\<forall>now \<in> set [11000000, 12000000].
      now - start_time example_manager > timeout_seconds example_manager * 1000000"
    and early: "\<forall>now \<in> set [8000000, 9000000].
      \<not> now - start_time example_manager > timeout_seconds example_manager * 1000000"
    by (simp_all add: set_stop_callback_def StopConditionManager_init_def)
  from C9_stop_callback [OF c, of "[11000000, 12000000]"] late r
  have 1: "run_calls example_manager (RequestStop # map ShouldStop [11000000, 12000000])
     = [(''_handle_stop_condition'', ''manual_stop'')]"
    and 2: "run_calls example_manager (map CheckTimeout [11000000, 12000000])
     = replicate (length [11000000, 12000000 :: int]) (''_handle_stop_condition'', ''timeout'')"
    and 3: "run_calls example_manager (map ShouldStop [11000000, 12000000])
     = replicate (length [11000000, 12000000 :: int]) (''_handle_stop_condition'', ''timeout'')"
    by blast+
  from C9_stop_callback [OF c, of "[8000000, 9000000]"] early
  have 4: "run_calls example_manager (map ShouldStop [8000000, 9000000]) = []" by blast
  from 1 2 3 4 show ?thesis by (simp add: numeral_2_eq_2)
qed

subsection \<open>Order-Book Maintainer\<close>

lemma emit_top_of_book_two_sided:
  "emit_top_of_book pf aid book now = Inr (Some md) \<Longrightarrow>
     side_levels (bids book) \<noteq> [] \<and> side_levels (asks book) \<noteq> [] \<and> asset_id md = aid
     \<and> to_float pf (level_price (last (side_levels (bids book)))) = Inr (top_bid md)
     \<and> to_float pf (level_price (last (side_levels (asks book)))) = Inr (top_ask md)"
  by (auto simp: emit_top_of_book_def make_market_data_def Let_def
      split: if_splits sum.splits)

lemma handle_book_update_two_sided:
  "handle_book_update pf books message now = (books', Inr (Some md)) \<Longrightarrow>
     two_sided books' (asset_id md)"
  by (auto simp: handle_book_update_def two_sided_def
      split: option.splits if_splits dest: emit_top_of_book_two_sided)

lemma handle_price_change_two_sided:
  "handle_price_change pf books message now = (books', Inr (Some md)) \<Longrightarrow>
     two_sided books' (asset_id md)"
  by (auto simp: handle_price_change_def two_sided_def
      split: option.splits if_splits prod.splits dest: emit_top_of_book_two_sided)

lemma handle_message_two_sided:
  "handle_message pf books message now = (books', Inr (Some md)) \<Longrightarrow>
     two_sided books' (asset_id md)"
  by (cases message)
    (auto simp: handle_message_def
      dest: handle_book_update_two_sided handle_price_change_two_sided)

lemma run_feed_two_sided:
  "(books', Inr (Some md)) \<in> set (run_feed pf books feed) \<Longrightarrow> two_sided books' (asset_id md)"
proof (induction pf books feed rule: run_feed.induct)
  case (1 pf books)
  then show ?case by simp
next
  case (2 pf books message now rest)
  obtain b1 out where h: "handle_message pf books message now = (b1, out)"
    by (cases "handle_message pf books message now") auto
  with "2.prems" consider "(books', Inr (Some md)) = (b1, out)"
    | "(books', Inr (Some md)) \<in> set (run_feed pf b1 rest)" by auto
  then show ?case
  proof cases
    case 1
    with h handle_message_two_sided show ?thesis by metis
  next
    case 2
    with "2.IH" h show ?thesis by simp
  qed
qed

lemma handle_price_change_unknown:
  "pc_asset_id message = Some aid \<Longrightarrow> books aid = None \<Longrightarrow>
     handle_price_change pf books message now = (books, Inr None)"
  by (simp add: handle_price_change_def)

lemma handle_price_change_asset:
  "handle_price_change pf books message now = (books', Inr (Some md)) \<Longrightarrow>
     pc_asset_id message = Some (asset_id md)"
  by (auto simp: handle_price_change_def
      split: option.splits if_splits prod.splits dest: emit_top_of_book_two_sided)

lemma handle_book_update_asset:
  "handle_book_update pf books message now = (books', Inr (Some md)) \<Longrightarrow>
     book_asset_id message = Some (asset_id md)"
  by (auto simp: handle_book_update_def
      split: option.splits if_splits dest: emit_top_of_book_two_sided)

text \<open>
  C3. Whatever full-book and price-change messages the maintainer handles, in whatever
  order, it passes a \<^verbatim>\<open>MarketData\<close> event to the callback only when the book it has
  stored for the event's instrument has at least one bid and at least one ask; the event
  is for the instrument of the message. A price change for an instrument with no stored
  book changes nothing and emits nothing, and a message after which the stored book of
  its instrument lacks a side (a change that sets the only bid to size zero) emits no
  event.
\<close>

theorem C3_no_one_sided_event:
  "(handle_book_update pf books bm now = (books', Inr (Some md)) \<longrightarrow>
      two_sided books' (asset_id md) \<and> book_asset_id bm = Some (asset_id md))
   \<and> (handle_price_change pf books pm now = (books', Inr (Some md)) \<longrightarrow>
      two_sided books' (asset_id md) \<and> pc_asset_id pm = Some (asset_id md))
   \<and> ((books', Inr (Some md)) \<in> set (run_feed pf books feed) \<longrightarrow>
      two_sided books' (asset_id md))
   \<and> (pc_asset_id pm = Some aid \<and> books aid = None \<longrightarrow>
      handle_price_change pf books pm now = (books, Inr None))
   \<and> (pc_asset_id pm = Some aid \<and> \<not> two_sided (fst (handle_price_change pf books pm now)) aid
      \<longrightarrow> (\<forall>ev. snd (handle_price_change pf books pm now) \<noteq> Inr (Some ev)))
   \<and> (book_asset_id bm = Some aid \<and> \<not> two_sided (fst (handle_book_update pf books bm now)) aid
      \<longrightarrow> (\<forall>ev. snd (handle_book_update pf books bm now) \<noteq> Inr (Some ev)))"
proof (intro conjI impI allI; (elim conjE)?)
  assume a: "handle_book_update pf books bm now = (books', Inr (Some md))"
  then show "two_sided books' (asset_id md)" by (rule handle_book_update_two_sided)
  from a show "book_asset_id bm = Some (asset_id md)" by (rule handle_book_update_asset)
next
  assume a: "handle_price_change pf books pm now = (books', Inr (Some md))"
  then show "two_sided books' (asset_id md)" by (rule handle_price_change_two_sided)
  from a show "pc_asset_id pm = Some (asset_id md)" by (rule handle_price_change_asset)
next
  assume "(books', Inr (Some md)) \<in> set (run_feed pf books feed)"
  then show "two_sided books' (asset_id md)" by (rule run_feed_two_sided)
next
  assume "pc_asset_id pm = Some aid" and "books aid = None"
  then show "handle_price_change pf books pm now = (books, Inr None)"
    by (rule handle_price_change_unknown)
next
  fix ev
  let ?r = "handle_price_change pf books pm now"
  assume a: "pc_asset_id pm = Some aid" and n: "\<not> two_sided (fst ?r) aid"
  show "snd ?r \<noteq> Inr (Some ev)"
  proof
    assume "snd ?r = Inr (Some ev)"
    then have r: "?r = (fst ?r, Inr (Some ev))" by (metis prod.collapse)
    from handle_price_change_two_sided [OF r] handle_price_change_asset [OF r] a n
    show False by simp
  qed
next
  fix ev
  let ?r = "handle_book_update pf books bm now"
  assume a: "book_asset_id bm = Some aid" and n: "\<not> two_sided (fst ?r) aid"
  show "snd ?r \<noteq> Inr (Some ev)"
  proof
    assume "snd ?r = Inr (Some ev)"
    then have r: "?r = (fst ?r, Inr (Some ev))" by (metis prod.collapse)
    from handle_book_update_two_sided [OF r] handle_book_update_asset [OF r] a n
    show False by simp
  qed
qed

lemmas book_defs = example_float_def example_book_def example_zero_bid_def example_new_bid_def
  handle_message_def handle_book_update_def handle_price_change_def
  apply_change_def emit_top_of_book_def make_market_data_def sort_levels_def
  side_levels_def to_float_def truthy_def two_sided_def Let_def


theorem C3_no_one_sided_event_witness:
  "snd (handle_book_update example_float Map.empty example_book 1)
     = Inr (Some \<lparr>asset_id = ''tok'', top_bid = 48 / 100, top_ask = 52 / 100,
                   bid_size = 10, ask_size = 10, timestamp = 1\<rparr>)
   \<and> two_sided (fst (handle_book_update example_float Map.empty example_book 1)) ''tok''
   \<and> snd (handle_price_change example_float [''tok'' \<mapsto> example_book] example_zero_bid 2)
       = Inr None
   \<and> \<not> two_sided (fst (handle_price_change example_float [''tok'' \<mapsto> example_book]
         example_zero_bid 2)) ''tok''
   \<and> handle_price_change example_float Map.empty example_new_bid 0 = (Map.empty, Inr None)
   \<and> snd (handle_price_change example_float [''tok'' \<mapsto> example_book] example_new_bid 4)
       = Inr (Some \<lparr>asset_id = ''tok'', top_bid = 48 / 100, top_ask = 52 / 100,
                     bid_size = 10, ask_size = 10, timestamp = 4\<rparr>)
   \<and> two_sided (fst (handle_price_change example_float [''tok'' \<mapsto> example_book]
         example_new_bid 4)) ''tok''"
proof -
  let ?md1 = "\<lparr>asset_id = ''tok'', top_bid = 48 / 100, top_ask = 52 / 100,
                   bid_size = 10, ask_size = 10, timestamp = 1\<rparr>"
  let ?md4 = "\<lparr>asset_id = ''tok'', top_bid = 48 / 100, top_ask = 52 / 100,
                   bid_size = 10, ask_size = 10, timestamp = 4\<rparr>"
  let ?b = "handle_book_update example_float Map.empty example_book 1"
  let ?z = "handle_price_change example_float [''tok'' \<mapsto> example_book] example_zero_bid 2"
  let ?n = "handle_price_change example_float [''tok'' \<mapsto> example_book] example_new_bid 4"
  have b: "snd ?b = Inr (Some ?md1)"
    by (simp add: book_defs)
  then have b': "?b = (fst ?b, Inr (Some ?md1))" by (metis prod.collapse)
  have n: "snd ?n = Inr (Some ?md4)"
    by (simp add: book_defs)
  then have n': "?n = (fst ?n, Inr (Some ?md4))" by (metis prod.collapse)
  have "run_feed example_float Map.empty [(BookMessage example_book, 1)] = [?b]"
    by (simp add: handle_message_def split_beta)
  with b' have f: "(fst ?b, Inr (Some ?md1))
      \<in> set (run_feed example_float Map.empty [(BookMessage example_book, 1)])"
    by (metis list.set_intros(1))
  have z: "\<not> two_sided (fst ?z) ''tok''"
    by (simp add: book_defs)
  have u: "pc_asset_id example_new_bid = Some ''tok'' \<and> Map.empty ''tok'' = (None :: order_book option)"
    and zi: "pc_asset_id example_zero_bid = Some ''tok''"
    and bi: "book_asset_id example_book = Some ''tok''" by (simp_all add: book_defs)
  from C3_no_one_sided_event [where pf = example_float and books = Map.empty
      and bm = example_book and now = 1 and books' = "fst ?b" and md = ?md1
      and feed = "[(BookMessage example_book, 1)]"] b' f
  have "two_sided (fst ?b) (asset_id ?md1)" by blast
  then have 1: "two_sided (fst ?b) ''tok''" by simp
  from C3_no_one_sided_event [where pf = example_float and books = "[''tok'' \<mapsto> example_book]"
      and pm = example_new_bid and now = 4 and books' = "fst ?n" and md = ?md4] n'
  have "two_sided (fst ?n) (asset_id ?md4)" by blast
  then have 2: "two_sided (fst ?n) ''tok''" by simp
  from C3_no_one_sided_event [where pf = example_float and books = Map.empty
      and pm = example_new_bid and now = 0 and aid = "''tok''"] u
  have 3: "handle_price_change example_float Map.empty example_new_bid 0 = (Map.empty, Inr None)"
    by blast
  from C3_no_one_sided_event [where pf = example_float and books = "[''tok'' \<mapsto> example_book]"
      and pm = example_zero_bid and now = 2 and aid = "''tok''"] zi z
  have "\<forall>ev. snd ?z \<noteq> Inr (Some ev)" by blast
  moreover have "\<exists>x. snd ?z = Inr x"
    by (simp add: book_defs)
  ultimately have 4: "snd ?z = Inr None" by (metis option.exhaust)
  from b 1 4 z 3 n 2 show ?thesis by blast
qed

end
